theory Spec2Isabelle
  imports Main
begin

section \<open>JavaScript values\<close>

text \<open>
  The values that travel through \<^verbatim>\<open>app.js\<close>: request-body fields, rows returned by the
  store, and whatever \<^verbatim>\<open>JSON.parse\<close> yields. Numbers are restricted to integers and
  timestamps are carried as strings (as the repository's tests do); neither restriction
  touches the control flow, which only ever asks whether a value is truthy.
\<close>

datatype jsval =
    Undefined
  | Null
  | Bool bool
  | Num int
  | Str string
  | Arr "jsval list"
  | Obj "(string \<times> jsval) list"

text \<open>JavaScript's \<^verbatim>\<open>ToBoolean\<close>, as used by \<^verbatim>\<open>if (x)\<close>, \<^verbatim>\<open>!x\<close> and \<^verbatim>\<open>x || y\<close>.\<close>

fun truthy :: "jsval \<Rightarrow> bool" where
  "truthy Undefined = False"
| "truthy Null = False"
| "truthy (Bool b) = b"
| "truthy (Num n) = (n \<noteq> 0)"
| "truthy (Str s) = (s \<noteq> [])"
| "truthy (Arr vs) = True"
| "truthy (Obj kvs) = True"

text \<open>\<^verbatim>\<open>x || null\<close>\<close>

definition or_null :: "jsval \<Rightarrow> jsval" where
  "or_null x = (if truthy x then x else Null)"

text \<open>Property read \<^verbatim>\<open>obj.k\<close> (and destructuring): a missing property is \<^verbatim>\<open>undefined\<close>.\<close>

definition get_prop :: "(string \<times> jsval) list \<Rightarrow> string \<Rightarrow> jsval" where
  "get_prop obj k = (case map_of obj k of None \<Rightarrow> Undefined | Some v \<Rightarrow> v)"

text \<open>\<^verbatim>\<open>rows[0]\<close>: reading past the end of a JavaScript array gives \<^verbatim>\<open>undefined\<close>.\<close>

fun first_row :: "jsval list \<Rightarrow> jsval" where
  "first_row [] = Undefined"
| "first_row (r # rs) = r"

text \<open>
  The reply of \<^verbatim>\<open>redis.get\<close> is a string or \<^verbatim>\<open>null\<close>; \<^verbatim>\<open>if (cached)\<close> takes the hit
  branch exactly for a non-empty string.
\<close>

fun cached_truthy :: "string option \<Rightarrow> bool" where
  "cached_truthy None = False"
| "cached_truthy (Some c) = (c \<noteq> [])"

fun cached_text :: "string option \<Rightarrow> string" where
  "cached_text None = []"
| "cached_text (Some c) = c"


section \<open>The two adapters and the runtime\<close>

text \<open>A rejected promise or a thrown exception carries an error value.\<close>

datatype error = Error string

text \<open>The statements \<^verbatim>\<open>app.js\<close> sends to PostgreSQL, named instead of spelled out.\<close>

datatype sql =
    SelectAllItems    \<comment> \<open>\<^verbatim>\<open>SELECT id, name, description, created_at FROM items ORDER BY created_at DESC\<close>\<close>
  | InsertItem        \<comment> \<open>\<^verbatim>\<open>INSERT INTO items (name, description) VALUES ($1, $2) RETURNING ...\<close>\<close>
  | SelectItemById    \<comment> \<open>\<^verbatim>\<open>SELECT id, name, description, created_at FROM items WHERE id = $1\<close>\<close>
  | UpdateItem        \<comment> \<open>\<^verbatim>\<open>UPDATE items SET name = $1, description = $2 WHERE id = $3 RETURNING ...\<close>\<close>
  | DeleteItem        \<comment> \<open>\<^verbatim>\<open>DELETE FROM items WHERE id = $1\<close>\<close>

record qresult =
  rows :: "jsval list"
  rowCount :: nat

text \<open>
  \<^verbatim>\<open>app.js\<close> talks to the outside through \<^verbatim>\<open>redis.get\<close>, \<^verbatim>\<open>redis.set\<close>, \<^verbatim>\<open>redis.del\<close>,
  \<^verbatim>\<open>pgPool.query\<close>, \<^verbatim>\<open>JSON.stringify\<close> and \<^verbatim>\<open>JSON.parse\<close>. None of them is code of the
  repository, so they are parameters: an environment over an arbitrary state \<open>'s\<close> of the
  outside world. Every awaited call either resolves (\<open>Inr\<close>) or rejects (\<open>Inl\<close>), and may
  change the outside state. \<^verbatim>\<open>JSON.parse\<close> returns a value or throws; \<^verbatim>\<open>JSON.stringify\<close>
  is taken to return a text for whatever the program hands it (rows of the store, or
  \<^verbatim>\<open>null\<close>).
\<close>

record 's env =
  redis_get :: "string \<Rightarrow> 's \<Rightarrow> (error + string option) \<times> 's"
  redis_set :: "string \<Rightarrow> string \<Rightarrow> nat \<Rightarrow> 's \<Rightarrow> (error + unit) \<times> 's"
  redis_del :: "string \<Rightarrow> 's \<Rightarrow> (error + nat) \<times> 's"
  pg_query :: "sql \<Rightarrow> jsval list \<Rightarrow> 's \<Rightarrow> (error + qresult) \<times> 's"
  JSON_stringify :: "jsval \<Rightarrow> string"
  JSON_parse :: "string \<Rightarrow> error + jsval"

text \<open>
  What the program did is observed as the sequence of calls it issued, in program order.
  \<open>Fetch\<close> marks an invocation of the fetch function handed to \<open>cacheOrFetch\<close>;
  \<open>RedisSet key value ttl\<close> stands for \<^verbatim>\<open>redis.set(key, value, 'EX', ttl)\<close>.
\<close>

datatype event =
    RedisGet string
  | RedisSet string string nat
  | RedisDel string
  | PgQuery sql "jsval list"
  | Fetch

type_synonym 's world = "'s \<times> event list"

definition get_call :: "'s env \<Rightarrow> string \<Rightarrow> 's world \<Rightarrow> (error + string option) \<times> 's world" where
  "get_call E key w =
     (case redis_get E key (fst w) of (r, s') \<Rightarrow> (r, (s', snd w @ [RedisGet key])))"

definition set_call :: "'s env \<Rightarrow> string \<Rightarrow> string \<Rightarrow> nat \<Rightarrow> 's world \<Rightarrow> (error + unit) \<times> 's world" where
  "set_call E key v ttl w =
     (case redis_set E key v ttl (fst w) of (r, s') \<Rightarrow> (r, (s', snd w @ [RedisSet key v ttl])))"

definition del_call :: "'s env \<Rightarrow> string \<Rightarrow> 's world \<Rightarrow> (error + nat) \<times> 's world" where
  "del_call E key w =
     (case redis_del E key (fst w) of (r, s') \<Rightarrow> (r, (s', snd w @ [RedisDel key])))"

definition query_call :: "'s env \<Rightarrow> sql \<Rightarrow> jsval list \<Rightarrow> 's world \<Rightarrow> (error + qresult) \<times> 's world" where
  "query_call E q ps w =
     (case pg_query E q ps (fst w) of (r, s') \<Rightarrow> (r, (s', snd w @ [PgQuery q ps])))"

definition fetch_call :: "('s world \<Rightarrow> (error + jsval) \<times> 's world) \<Rightarrow> 's world \<Rightarrow> (error + jsval) \<times> 's world" where
  "fetch_call fetchFn w = fetchFn (fst w, snd w @ [Fetch])"


section \<open>The cache-aside coordinator\<close>

text \<open>
  \<^verbatim>\<open>async function cacheOrFetch(key, fetchFn, ttlSeconds = 60)\<close>. Each \<^verbatim>\<open>await\<close> that rejects
  leaves the function at once with that error: the function has no \<^verbatim>\<open>try\<close>.
\<close>

definition cacheOrFetch ::
  "'s env \<Rightarrow> string \<Rightarrow> ('s world \<Rightarrow> (error + jsval) \<times> 's world) \<Rightarrow> nat \<Rightarrow> 's world
     \<Rightarrow> (error + jsval) \<times> 's world" where
  "cacheOrFetch E key fetchFn ttlSeconds w =
     (case get_call E key w of
        (Inl e, w1) \<Rightarrow> (Inl e, w1)
      | (Inr cached, w1) \<Rightarrow>
          if cached_truthy cached then (JSON_parse E (cached_text cached), w1)
          else
            (case fetch_call fetchFn w1 of
               (Inl e, w2) \<Rightarrow> (Inl e, w2)
             | (Inr result, w2) \<Rightarrow>
                 (case set_call E key (JSON_stringify E result) ttlSeconds w2 of
                    (Inl e, w3) \<Rightarrow> (Inl e, w3)
                  | (Inr ok, w3) \<Rightarrow> (Inr result, w3))))"

text \<open>
  \<^verbatim>\<open>Promise.all([redis.del(k1), redis.del(k2)])\<close>: both commands are issued, in array order,
  before anything is awaited; the combined promise rejects as soon as one of them does.
\<close>

definition del_both :: "'s env \<Rightarrow> string \<Rightarrow> string \<Rightarrow> 's world \<Rightarrow> (error + unit) \<times> 's world" where
  "del_both E k1 k2 w =
     (case del_call E k1 w of
        (r1, w1) \<Rightarrow>
          (case del_call E k2 w1 of
             (r2, w2) \<Rightarrow>
               (case r1 of
                  Inl e \<Rightarrow> (Inl e, w2)
                | Inr n1 \<Rightarrow> (case r2 of Inl e \<Rightarrow> (Inl e, w2) | Inr n2 \<Rightarrow> (Inr (), w2)))))"


section \<open>The request handlers\<close>

text \<open>
  Of a request the handlers read \<^verbatim>\<open>req.params.id\<close>, the path segment as a string, and the
  fields of \<^verbatim>\<open>req.body\<close>, the object that \<^verbatim>\<open>express.json()\<close> left there. A response is its
  status and what \<^verbatim>\<open>res.json\<close> or \<^verbatim>\<open>res.end\<close> sent. The \<^verbatim>\<open>console.error\<close> lines of the
  \<^verbatim>\<open>catch\<close> blocks are not modelled.
\<close>

record request =
  id_param :: string
  body :: "(string \<times> jsval) list"

text \<open>The error texts of the responses, named after what they say.\<close>

datatype message =
    NameRequired | ListFailed | CreateFailed | ItemNotFound | GetFailed
  | ItemMissing | UpdateFailed | DeleteFailed

datatype payload = Json jsval | ErrorBody message | NoBody

record response =
  status :: nat
  payload :: payload

text \<open>\<^verbatim>\<open>app.get('/items', ...)\<close>\<close>

definition fetch_all :: "'s env \<Rightarrow> 's world \<Rightarrow> (error + jsval) \<times> 's world" where
  "fetch_all E w =
     (case query_call E SelectAllItems [] w of
        (Inl e, w') \<Rightarrow> (Inl e, w')
      | (Inr q, w') \<Rightarrow> (Inr (Arr (rows q)), w'))"

definition get_items :: "'s env \<Rightarrow> 's world \<Rightarrow> response \<times> 's world" where
  "get_items E w =
     (case cacheOrFetch E ''items:all'' (fetch_all E) 30 w of
        (Inr items, w') \<Rightarrow> (\<lparr>status = 200, payload = Json items\<rparr>, w')
      | (Inl err, w') \<Rightarrow> (\<lparr>status = 500, payload = ErrorBody ListFailed\<rparr>, w'))"

text \<open>\<^verbatim>\<open>app.post('/items', ...)\<close>\<close>

definition post_items :: "'s env \<Rightarrow> request \<Rightarrow> 's world \<Rightarrow> response \<times> 's world" where
  "post_items E req w =
     (let name = get_prop (body req) ''name''; description = get_prop (body req) ''description'' in
      if \<not> truthy name then (\<lparr>status = 400, payload = ErrorBody NameRequired\<rparr>, w)
      else
        (case query_call E InsertItem [name, or_null description] w of
           (Inl err, w1) \<Rightarrow> (\<lparr>status = 500, payload = ErrorBody CreateFailed\<rparr>, w1)
         | (Inr q, w1) \<Rightarrow>
             (case del_call E ''items:all'' w1 of
                (Inl err, w2) \<Rightarrow> (\<lparr>status = 500, payload = ErrorBody CreateFailed\<rparr>, w2)
              | (Inr n, w2) \<Rightarrow> (\<lparr>status = 201, payload = Json (first_row (rows q))\<rparr>, w2))))"

text \<open>\<^verbatim>\<open>app.get('/items/:id', ...)\<close>\<close>

definition fetch_one :: "'s env \<Rightarrow> string \<Rightarrow> 's world \<Rightarrow> (error + jsval) \<times> 's world" where
  "fetch_one E ident w =
     (case query_call E SelectItemById [Str ident] w of
        (Inl e, w') \<Rightarrow> (Inl e, w')
      | (Inr q, w') \<Rightarrow> (Inr (or_null (first_row (rows q))), w'))"

definition get_item :: "'s env \<Rightarrow> request \<Rightarrow> 's world \<Rightarrow> response \<times> 's world" where
  "get_item E req w =
     (let ident = id_param req; cacheKey = ''items:'' @ ident in
      case cacheOrFetch E cacheKey (fetch_one E ident) 60 w of
        (Inr item, w') \<Rightarrow>
          if \<not> truthy item then (\<lparr>status = 404, payload = ErrorBody ItemNotFound\<rparr>, w')
          else (\<lparr>status = 200, payload = Json item\<rparr>, w')
      | (Inl err, w') \<Rightarrow> (\<lparr>status = 500, payload = ErrorBody GetFailed\<rparr>, w'))"

text \<open>\<^verbatim>\<open>app.put('/items/:id', ...)\<close>\<close>

definition put_item :: "'s env \<Rightarrow> request \<Rightarrow> 's world \<Rightarrow> response \<times> 's world" where
  "put_item E req w =
     (let ident = id_param req;
          name = get_prop (body req) ''name''; description = get_prop (body req) ''description'' in
      if \<not> truthy name then (\<lparr>status = 400, payload = ErrorBody NameRequired\<rparr>, w)
      else
        (case query_call E UpdateItem [name, or_null description, Str ident] w of
           (Inl err, w1) \<Rightarrow> (\<lparr>status = 500, payload = ErrorBody UpdateFailed\<rparr>, w1)
         | (Inr q, w1) \<Rightarrow>
             if length (rows q) = 0 then (\<lparr>status = 404, payload = ErrorBody ItemMissing\<rparr>, w1)
             else
               (case del_both E ''items:all'' (''items:'' @ ident) w1 of
                  (Inl err, w2) \<Rightarrow> (\<lparr>status = 500, payload = ErrorBody UpdateFailed\<rparr>, w2)
                | (Inr u, w2) \<Rightarrow> (\<lparr>status = 200, payload = Json (first_row (rows q))\<rparr>, w2))))"

text \<open>\<^verbatim>\<open>app.delete('/items/:id', ...)\<close>\<close>

definition delete_item :: "'s env \<Rightarrow> request \<Rightarrow> 's world \<Rightarrow> response \<times> 's world" where
  "delete_item E req w =
     (let ident = id_param req in
      case query_call E DeleteItem [Str ident] w of
        (Inl err, w1) \<Rightarrow> (\<lparr>status = 500, payload = ErrorBody DeleteFailed\<rparr>, w1)
      | (Inr q, w1) \<Rightarrow>
          if rowCount q = 0 then (\<lparr>status = 404, payload = ErrorBody ItemNotFound\<rparr>, w1)
          else
            (case del_both E ''items:all'' (''items:'' @ ident) w1 of
               (Inl err, w2) \<Rightarrow> (\<lparr>status = 500, payload = ErrorBody DeleteFailed\<rparr>, w2)
             | (Inr u, w2) \<Rightarrow> (\<lparr>status = 204, payload = NoBody\<rparr>, w2)))"


section \<open>Observations on a call sequence\<close>

definition fetch_count :: "event list \<Rightarrow> nat" where
  "fetch_count evs = length (filter (\<lambda>e. e = Fetch) evs)"

fun is_write :: "event \<Rightarrow> bool" where
  "is_write (RedisSet k v t) = True"
| "is_write e = False"

definition write_count :: "event list \<Rightarrow> nat" where
  "write_count evs = length (filter is_write evs)"


section \<open>An in-memory environment\<close>

text \<open>
  A concrete environment on which the handlers can be run: Redis as a list of entries
  (key, value, time-to-live), the \<^verbatim>\<open>items\<close> table as a list of rows, newest first. It plays
  the part the mocks play in the repository's tests, with the difference that it keeps
  what is written to it. Entries do not expire by themselves here, and a row keeps the
  values bound to the statement as they were bound (SQL \<^verbatim>\<open>NULL\<close> is \<open>Null\<close>).
\<close>

record item =
  item_id :: nat
  item_name :: jsval
  item_description :: jsval
  created_at :: string

record mem =
  cache :: "(string \<times> string \<times> nat) list"
  table :: "item list"
  next_id :: nat
  now :: string

definition row_json :: "item \<Rightarrow> jsval" where
  "row_json it =
     Obj [(''id'', Num (int (item_id it))), (''name'', item_name it),
          (''description'', item_description it), (''created_at'', Str (created_at it))]"

text \<open>Decimal digits of a natural number, as the id appears in a URL.\<close>

fun dec :: "nat \<Rightarrow> string" where
  "dec n = (if n < 10 then [''0123456789'' ! n] else dec (n div 10) @ [''0123456789'' ! (n mod 10)])"

declare dec.simps [simp del]

definition mem_get :: "string \<Rightarrow> mem \<Rightarrow> (error + string option) \<times> mem" where
  "mem_get key m = (Inr (map_option fst (map_of (cache m) key)), m)"

definition mem_set :: "string \<Rightarrow> string \<Rightarrow> nat \<Rightarrow> mem \<Rightarrow> (error + unit) \<times> mem" where
  "mem_set key v ttl m =
     (Inr (), m\<lparr>cache := (key, v, ttl) # filter (\<lambda>en. fst en \<noteq> key) (cache m)\<rparr>)"

definition mem_del :: "string \<Rightarrow> mem \<Rightarrow> (error + nat) \<times> mem" where
  "mem_del key m =
     (Inr (length (filter (\<lambda>en. fst en = key) (cache m))),
      m\<lparr>cache := filter (\<lambda>en. fst en \<noteq> key) (cache m)\<rparr>)"

definition bad_statement :: "mem \<Rightarrow> (error + qresult) \<times> mem" where
  "bad_statement m = (Inl (Error ''bad statement''), m)"

definition has_id :: "string \<Rightarrow> item \<Rightarrow> bool" where
  "has_id i it = (dec (item_id it) = i)"

definition mem_select_all :: "mem \<Rightarrow> (error + qresult) \<times> mem" where
  "mem_select_all m = (Inr \<lparr>rows = map row_json (table m), rowCount = length (table m)\<rparr>, m)"

definition mem_insert :: "jsval \<Rightarrow> jsval \<Rightarrow> mem \<Rightarrow> (error + qresult) \<times> mem" where
  "mem_insert n d m =
     (let it = \<lparr>item_id = next_id m, item_name = n, item_description = d, created_at = now m\<rparr>
      in (Inr \<lparr>rows = [row_json it], rowCount = 1\<rparr>,
          m\<lparr>table := it # table m, next_id := Suc (next_id m)\<rparr>))"

definition mem_select :: "string \<Rightarrow> mem \<Rightarrow> (error + qresult) \<times> mem" where
  "mem_select i m =
     (let found = filter (has_id i) (table m)
      in (Inr \<lparr>rows = map row_json found, rowCount = length found\<rparr>, m))"

definition mem_update :: "jsval \<Rightarrow> jsval \<Rightarrow> string \<Rightarrow> mem \<Rightarrow> (error + qresult) \<times> mem" where
  "mem_update n d i m =
     (let table' = map (\<lambda>it. if has_id i it
                               then it\<lparr>item_name := n, item_description := d\<rparr> else it) (table m);
          changed = filter (has_id i) table'
      in (Inr \<lparr>rows = map row_json changed, rowCount = length changed\<rparr>, m\<lparr>table := table'\<rparr>))"

definition mem_delete :: "string \<Rightarrow> mem \<Rightarrow> (error + qresult) \<times> mem" where
  "mem_delete i m =
     (let gone = filter (has_id i) (table m)
      in (Inr \<lparr>rows = [], rowCount = length gone\<rparr>,
          m\<lparr>table := filter (\<lambda>it. \<not> has_id i it) (table m)\<rparr>))"

definition mem_query :: "sql \<Rightarrow> jsval list \<Rightarrow> mem \<Rightarrow> (error + qresult) \<times> mem" where
  "mem_query q ps m =
     (case q of
        SelectAllItems \<Rightarrow> (case ps of [] \<Rightarrow> mem_select_all m | _ \<Rightarrow> bad_statement m)
      | InsertItem \<Rightarrow> (case ps of [n, d] \<Rightarrow> mem_insert n d m | _ \<Rightarrow> bad_statement m)
      | SelectItemById \<Rightarrow> (case ps of [Str i] \<Rightarrow> mem_select i m | _ \<Rightarrow> bad_statement m)
      | UpdateItem \<Rightarrow> (case ps of [n, d, Str i] \<Rightarrow> mem_update n d i m | _ \<Rightarrow> bad_statement m)
      | DeleteItem \<Rightarrow> (case ps of [Str i] \<Rightarrow> mem_delete i m | _ \<Rightarrow> bad_statement m))"

text \<open>
  The serialiser of the in-memory environment writes JSON text for \<open>jsval\<close>: strings
  are quoted, with the quote and the backslash escaped; an \<^verbatim>\<open>undefined\<close> array element
  is written \<^verbatim>\<open>null\<close> and an \<^verbatim>\<open>undefined\<close> property is left out; \<^verbatim>\<open>undefined\<close> itself has
  no text. Its parser recognises the serialisations of a given list of documents and
  rejects every other text, the empty one included.
\<close>

definition quote :: "string \<Rightarrow> string" where
  "quote s =
     [CHR 0x22] @ concat (map (\<lambda>c. if c = CHR 0x22 \<or> c = CHR 0x5C then [CHR 0x5C, c] else [c]) s)
       @ [CHR 0x22]"

fun join :: "string list \<Rightarrow> string" where
  "join [] = []"
| "join [x] = x"
| "join (x # y # zs) = x @ '','' @ join (y # zs)"

fun json_text :: "jsval \<Rightarrow> string" where
  "json_text Undefined = ''null''"
| "json_text Null = ''null''"
| "json_text (Bool b) = (if b then ''true'' else ''false'')"
| "json_text (Num n) = (if n < 0 then ''-'' @ dec (nat (- n)) else dec (nat n))"
| "json_text (Str s) = quote s"
| "json_text (Arr vs) = ''['' @ join (map json_text vs) @ '']''"
| "json_text (Obj kvs) =
     ''{'' @ join (map (\<lambda>kv. quote (fst kv) @ '':'' @ json_text (snd kv))
                     (filter (\<lambda>kv. snd kv \<noteq> Undefined) kvs)) @ ''}''"

definition stringify :: "jsval \<Rightarrow> string" where
  "stringify v = (if v = Undefined then [] else json_text v)"

definition parse_among :: "jsval list \<Rightarrow> string \<Rightarrow> error + jsval" where
  "parse_among docs text =
     (case find (\<lambda>v. v \<noteq> Undefined \<and> stringify v = text) docs of
        Some v \<Rightarrow> Inr v
      | None \<Rightarrow> Inl (Error ''SyntaxError''))"

definition mem_env :: "jsval list \<Rightarrow> mem env" where
  "mem_env docs =
     \<lparr>redis_get = mem_get, redis_set = mem_set, redis_del = mem_del, pg_query = mem_query,
      JSON_stringify = stringify, JSON_parse = parse_among docs\<rparr>"

definition mem0 :: mem where
  "mem0 = \<lparr>cache = [], table = [], next_id = 1, now = ''2025-01-01T00:00:00Z''\<rparr>"

text \<open>A call to an adapter that is unreachable: the promise rejects and nothing changes.\<close>

definition unreachable :: "'s \<Rightarrow> (error + 'a) \<times> 's" where
  "unreachable s = (Inl (Error ''ECONNREFUSED''), s)"


section \<open>Concrete inputs\<close>

text \<open>Environments in which exactly one kind of Redis command is unreachable.\<close>

definition read_down :: "mem env" where
  "read_down = (mem_env [])\<lparr>redis_get := (\<lambda>key. unreachable)\<rparr>"

definition write_down :: "mem env" where
  "write_down = (mem_env [])\<lparr>redis_set := (\<lambda>key v ttl. unreachable)\<rparr>"

definition del_down :: "mem env" where
  "del_down = (mem_env [])\<lparr>redis_del := (\<lambda>key. unreachable)\<rparr>"

text \<open>A store with one item, and that item's row as the store returns it.\<close>

definition mem1 :: mem where
  "mem1 = \<lparr>cache = [],
            table = [\<lparr>item_id = 1, item_name = Str ''A'', item_description = Str ''desc A'',
                      created_at = ''2025-01-01T00:00:00Z''\<rparr>],
            next_id = 2, now = ''2025-02-02T00:00:00Z''\<rparr>"

definition row1 :: jsval where
  "row1 = Obj [(''id'', Num 1), (''name'', Str ''A''), (''description'', Str ''desc A''),
               (''created_at'', Str ''2025-01-01T00:00:00Z'')]"

text \<open>Further states and requests, and an environment whose store is unreachable.\<close>

definition mem_null7 :: mem where
  "mem_null7 = \<lparr>cache = [(''items:7'', ''null'', 60)], table = [], next_id = 1,
                 now = ''2025-01-01T00:00:00Z''\<rparr>"

definition mem_cached_list :: mem where
  "mem_cached_list = \<lparr>cache = [(''items:all'', ''[]'', 30)], table = [], next_id = 1,
                 now = ''2025-01-01T00:00:00Z''\<rparr>"

definition pg_down :: "mem env" where
  "pg_down = (mem_env [])\<lparr>pg_query := (\<lambda>q ps. unreachable)\<rparr>"

definition req7 :: request where
  "req7 = \<lparr>id_param = ''7'', body = []\<rparr>"

definition req2 :: request where
  "req2 = \<lparr>id_param = ''2'', body = []\<rparr>"

definition mem1_null2 :: mem where
  "mem1_null2 = \<lparr>cache = [(''items:2'', ''null'', 60)],
            table = [\<lparr>item_id = 1, item_name = Str ''A'', item_description = Str ''desc A'',
                      created_at = ''2025-01-01T00:00:00Z''\<rparr>],
            next_id = 2, now = ''2025-02-02T00:00:00Z''\<rparr>"

definition reqX :: request where
  "reqX = \<lparr>id_param = ''1'', body = [(''name'', Str ''X''), (''description'', Str [])]\<rparr>"

definition itemX :: item where
  "itemX = \<lparr>item_id = 1, item_name = Str ''X'', item_description = Null,
             created_at = ''2025-01-01T00:00:00Z''\<rparr>"

definition memX :: mem where
  "memX = \<lparr>cache = [], table = [itemX], next_id = 2, now = ''2025-01-01T00:00:00Z''\<rparr>"

definition req999 :: request where
  "req999 = \<lparr>id_param = ''999'', body = [(''name'', Str ''N'')]\<rparr>"

text \<open>A state whose cache holds the list, two detail entries and one stored item.\<close>

definition item1 :: item where
  "item1 = \<lparr>item_id = 1, item_name = Str ''A'', item_description = Str ''desc A'',
             created_at = ''2025-01-01T00:00:00Z''\<rparr>"

definition mem_warm :: mem where
  "mem_warm = \<lparr>cache = [(''items:all'', ''[]'', 30), (''items:1'', ''null'', 60),
                         (''items:2'', ''null'', 60)],
                table = [item1], next_id = 2, now = ''2025-02-02T00:00:00Z''\<rparr>"


section \<open>Unfolding sets\<close>

lemmas call_defs = get_call_def set_call_def del_call_def query_call_def fetch_call_def

lemmas mem_defs = mem_env_def mem_get_def mem_set_def mem_del_def mem_query_def mem_select_all_def
  mem_insert_def mem_select_def mem_update_def mem_delete_def bad_statement_def has_id_def mem0_def
  stringify_def parse_among_def row_json_def quote_def unreachable_def


text \<open>The one id that the concrete inputs below look up.\<close>

lemma dec_1: "dec (Suc 0) = ''1''"
  by (subst dec.simps) simp


section \<open>The paths through the coordinator\<close>

lemma cacheOrFetch_read_rejected:
  assumes "redis_get E key s = (Inl e, s1)"
  shows "cacheOrFetch E key fetchFn ttl (s, tr) = (Inl e, (s1, tr @ [RedisGet key]))"
  using assms by (simp add: cacheOrFetch_def get_call_def)

lemma cacheOrFetch_hit:
  assumes "redis_get E key s = (Inr (Some c), s1)" and "c \<noteq> []"
  shows "cacheOrFetch E key fetchFn ttl (s, tr) = (JSON_parse E c, (s1, tr @ [RedisGet key]))"
  using assms by (simp add: cacheOrFetch_def get_call_def)

lemma cacheOrFetch_miss:
  assumes "redis_get E key s = (Inr cached, s1)" and "\<not> cached_truthy cached"
  shows "cacheOrFetch E key fetchFn ttl (s, tr) =
     (case fetchFn (s1, tr @ [RedisGet key, Fetch]) of
        (Inl e, w2) \<Rightarrow> (Inl e, w2)
      | (Inr result, w2) \<Rightarrow>
          (case set_call E key (JSON_stringify E result) ttl w2 of
             (Inl e, w3) \<Rightarrow> (Inl e, w3)
           | (Inr ok, w3) \<Rightarrow> (Inr result, w3)))"
  using assms by (simp add: cacheOrFetch_def get_call_def fetch_call_def)

lemma cacheOrFetch_fetch_rejected:
  assumes "redis_get E key s = (Inr cached, s1)" and "\<not> cached_truthy cached"
    and "fetchFn (s1, tr @ [RedisGet key, Fetch]) = (Inl e, w2)"
  shows "cacheOrFetch E key fetchFn ttl (s, tr) = (Inl e, w2)"
  using assms(3) by (simp add: cacheOrFetch_miss [OF assms(1,2)])

lemma cacheOrFetch_write_rejected:
  assumes "redis_get E key s = (Inr cached, s1)" and "\<not> cached_truthy cached"
    and "fetchFn (s1, tr @ [RedisGet key, Fetch]) = (Inr result, (s2, tr2))"
    and "redis_set E key (JSON_stringify E result) ttl s2 = (Inl e, s3)"
  shows "cacheOrFetch E key fetchFn ttl (s, tr)
           = (Inl e, (s3, tr2 @ [RedisSet key (JSON_stringify E result) ttl]))"
  using assms(3,4) by (simp add: cacheOrFetch_miss [OF assms(1,2)] set_call_def)

lemma cacheOrFetch_populates:
  assumes "redis_get E key s = (Inr cached, s1)" and "\<not> cached_truthy cached"
    and "fetchFn (s1, tr @ [RedisGet key, Fetch]) = (Inr result, (s2, tr2))"
    and "redis_set E key (JSON_stringify E result) ttl s2 = (Inr ok, s3)"
  shows "cacheOrFetch E key fetchFn ttl (s, tr)
           = (Inr result, (s3, tr2 @ [RedisSet key (JSON_stringify E result) ttl]))"
  using assms(3,4) by (simp add: cacheOrFetch_miss [OF assms(1,2)] set_call_def)

lemma fetch_all_ok:
  assumes "pg_query E SelectAllItems [] s = (Inr q, s')"
  shows "fetch_all E (s, tr) = (Inr (Arr (rows q)), (s', tr @ [PgQuery SelectAllItems []]))"
  using assms by (simp add: fetch_all_def query_call_def)

lemma fetch_all_rejected:
  assumes "pg_query E SelectAllItems [] s = (Inl e, s')"
  shows "fetch_all E (s, tr) = (Inl e, (s', tr @ [PgQuery SelectAllItems []]))"
  using assms by (simp add: fetch_all_def query_call_def)

lemma fetch_one_ok:
  assumes "pg_query E SelectItemById [Str i] s = (Inr q, s')"
  shows "fetch_one E i (s, tr)
           = (Inr (or_null (first_row (rows q))), (s', tr @ [PgQuery SelectItemById [Str i]]))"
  using assms by (simp add: fetch_one_def query_call_def)

lemma fetch_one_rejected:
  assumes "pg_query E SelectItemById [Str i] s = (Inl e, s')"
  shows "fetch_one E i (s, tr) = (Inl e, (s', tr @ [PgQuery SelectItemById [Str i]]))"
  using assms by (simp add: fetch_one_def query_call_def)

lemma cacheOrFetch_shape:
  "snd (snd (cacheOrFetch E key fetchFn ttl (s, tr))) = tr @ [RedisGet key]
   \<or> snd (snd (cacheOrFetch E key fetchFn ttl (s, tr)))
        = snd (snd (fetchFn (snd (redis_get E key s), tr @ [RedisGet key, Fetch])))
   \<or> (\<exists>v. snd (snd (cacheOrFetch E key fetchFn ttl (s, tr)))
        = snd (snd (fetchFn (snd (redis_get E key s), tr @ [RedisGet key, Fetch])))
            @ [RedisSet key v ttl])"
  by (auto simp add: cacheOrFetch_def call_defs split: prod.splits sum.splits)

lemma get_items_counts:
  "fetch_count (snd (snd (get_items E (s, [])))) \<le> 1
   \<and> write_count (snd (snd (get_items E (s, [])))) \<le> 1"
  by (auto simp add: get_items_def fetch_all_def cacheOrFetch_def call_defs fetch_count_def write_count_def
      split: prod.splits sum.splits)

lemma get_item_counts:
  "fetch_count (snd (snd (get_item E req (s, [])))) \<le> 1
   \<and> write_count (snd (snd (get_item E req (s, [])))) \<le> 1"
  by (auto simp add: get_item_def fetch_one_def cacheOrFetch_def call_defs fetch_count_def write_count_def Let_def
      split: prod.splits sum.splits)


lemma get_items_populates:
  assumes "redis_get E ''items:all'' s = (Inr cached, s1)" and "\<not> cached_truthy cached"
    and "pg_query E SelectAllItems [] s1 = (Inr q, s2)"
    and "redis_set E ''items:all'' (JSON_stringify E (Arr (rows q))) 30 s2 = (Inr ok, s3)"
  shows "get_items E (s, [])
           = (\<lparr>status = 200, payload = Json (Arr (rows q))\<rparr>,
              (s3, [RedisGet ''items:all'', Fetch, PgQuery SelectAllItems [],
                    RedisSet ''items:all'' (JSON_stringify E (Arr (rows q))) 30]))"
proof -
  have "fetch_all E (s1, [] @ [RedisGet ''items:all'', Fetch])
          = (Inr (Arr (rows q)), (s2, [RedisGet ''items:all'', Fetch, PgQuery SelectAllItems []]))"
    using fetch_all_ok [OF assms(3)] by simp
  from cacheOrFetch_populates [where fetchFn = "fetch_all E" and tr = "[]", OF assms(1,2) this assms(4)]
  show ?thesis by (simp add: get_items_def)
qed

lemma get_item_populates:
  assumes "redis_get E (''items:'' @ id_param req) s = (Inr cached, s1)"
    and "\<not> cached_truthy cached"
    and "pg_query E SelectItemById [Str (id_param req)] s1 = (Inr q, s2)"
    and "rows q = row # rest" and "truthy row"
    and "redis_set E (''items:'' @ id_param req) (JSON_stringify E row) 60 s2 = (Inr ok, s3)"
  shows "get_item E req (s, [])
           = (\<lparr>status = 200, payload = Json row\<rparr>,
              (s3, [RedisGet (''items:'' @ id_param req), Fetch,
                    PgQuery SelectItemById [Str (id_param req)],
                    RedisSet (''items:'' @ id_param req) (JSON_stringify E row) 60]))"
proof -
  have row: "or_null (first_row (rows q)) = row"
    using assms(4,5) by (simp add: or_null_def)
  have "fetch_one E (id_param req) (s1, [] @ [RedisGet (''items:'' @ id_param req), Fetch])
          = (Inr row, (s2, [RedisGet (''items:'' @ id_param req), Fetch,
                              PgQuery SelectItemById [Str (id_param req)]]))"
    using fetch_one_ok [OF assms(3)] row by simp
  from cacheOrFetch_populates [where fetchFn = "fetch_one E (id_param req)" and tr = "[]",
      OF assms(1,2) this assms(6)] assms(5)
  show ?thesis by (simp add: get_item_def Let_def)
qed


section \<open>Read path: miss, hit, failing fetch\<close>

text \<open>
  Claim C5. When the lookup of a key misses (Redis answers \<^verbatim>\<open>null\<close>, or an empty
  string), and the fetch and the write both succeed, \<open>cacheOrFetch\<close> runs the fetch
  function once, on the state the lookup left, then issues one
  \<^verbatim>\<open>SET key JSON.stringify(result) EX ttl\<close> and returns the fetched result. The list handler
  does so under \<^verbatim>\<open>items:all\<close> with 30 seconds and the detail handler under
  \<^verbatim>\<open>items:<id>\<close> with 60 seconds. On every call, whatever the adapters answer, the
  calls issued are the lookup alone, or the lookup and one run of the fetch function, or
  these followed by one write; in the two handlers at most one fetch and at most one
  write are counted.
\<close>

theorem miss_fetches_once_and_populates:
  "(redis_get E key s = (Inr cached, s1) \<and> \<not> cached_truthy cached
      \<and> fetchFn (s1, tr @ [RedisGet key, Fetch]) = (Inr result, (s2, tr2))
      \<and> redis_set E key (JSON_stringify E result) ttl s2 = (Inr ok, s3)
     \<longrightarrow> cacheOrFetch E key fetchFn ttl (s, tr)
           = (Inr result, (s3, tr2 @ [RedisSet key (JSON_stringify E result) ttl])))
   \<and> (redis_get E ''items:all'' s = (Inr cached, s1) \<and> \<not> cached_truthy cached
      \<and> pg_query E SelectAllItems [] s1 = (Inr q, s2)
      \<and> redis_set E ''items:all'' (JSON_stringify E (Arr (rows q))) 30 s2 = (Inr ok, s3)
     \<longrightarrow> get_items E (s, [])
           = (\<lparr>status = 200, payload = Json (Arr (rows q))\<rparr>,
              (s3, [RedisGet ''items:all'', Fetch, PgQuery SelectAllItems [],
                    RedisSet ''items:all'' (JSON_stringify E (Arr (rows q))) 30])))
   \<and> (redis_get E (''items:'' @ id_param req) s = (Inr cached, s1) \<and> \<not> cached_truthy cached
      \<and> pg_query E SelectItemById [Str (id_param req)] s1 = (Inr q, s2)
      \<and> rows q = row # rest \<and> truthy row
      \<and> redis_set E (''items:'' @ id_param req) (JSON_stringify E row) 60 s2 = (Inr ok, s3)
     \<longrightarrow> get_item E req (s, [])
           = (\<lparr>status = 200, payload = Json row\<rparr>,
              (s3, [RedisGet (''items:'' @ id_param req), Fetch,
                    PgQuery SelectItemById [Str (id_param req)],
                    RedisSet (''items:'' @ id_param req) (JSON_stringify E row) 60])))
   \<and> (snd (snd (cacheOrFetch E key fetchFn ttl (s, tr))) = tr @ [RedisGet key]
      \<or> snd (snd (cacheOrFetch E key fetchFn ttl (s, tr)))
           = snd (snd (fetchFn (snd (redis_get E key s), tr @ [RedisGet key, Fetch])))
      \<or> (\<exists>v. snd (snd (cacheOrFetch E key fetchFn ttl (s, tr)))
           = snd (snd (fetchFn (snd (redis_get E key s), tr @ [RedisGet key, Fetch])))
               @ [RedisSet key v ttl]))
   \<and> fetch_count (snd (snd (get_items E (s, [])))) \<le> 1
   \<and> write_count (snd (snd (get_items E (s, [])))) \<le> 1
   \<and> fetch_count (snd (snd (get_item E req (s, [])))) \<le> 1
   \<and> write_count (snd (snd (get_item E req (s, [])))) \<le> 1"
  using cacheOrFetch_populates [of E key s cached s1 fetchFn tr result s2 tr2 ttl ok s3]
    get_items_populates [of E s cached s1 q s2 ok s3]
    get_item_populates [of E req s cached s1 q s2 row rest ok s3]
    cacheOrFetch_shape [of E key fetchFn ttl s tr]
    get_items_counts [of E s] get_item_counts [of E req s]
  by blast


theorem miss_fetches_once_and_populates_witness:
  "cacheOrFetch (mem_env []) ''k'' (fetch_all (mem_env [])) 5 (mem0, [])
     = (Inr (Arr []),
        (\<lparr>cache = [(''k'', ''[]'', 5)], table = [], next_id = 1, now = ''2025-01-01T00:00:00Z''\<rparr>,
         [RedisGet ''k'', Fetch, PgQuery SelectAllItems [], RedisSet ''k'' ''[]'' 5]))
   \<and> get_items (mem_env []) (mem0, [])
     = (\<lparr>status = 200, payload = Json (Arr [])\<rparr>,
        (\<lparr>cache = [(''items:all'', ''[]'', 30)], table = [], next_id = 1,
          now = ''2025-01-01T00:00:00Z''\<rparr>,
         [RedisGet ''items:all'', Fetch, PgQuery SelectAllItems [],
          RedisSet ''items:all'' ''[]'' 30]))
   \<and> get_item (mem_env []) \<lparr>id_param = ''1'', body = []\<rparr> (mem1, [])
     = (\<lparr>status = 200, payload = Json row1\<rparr>,
        (\<lparr>cache = [(''items:1'', stringify row1, 60)], table = table mem1, next_id = 2,
          now = ''2025-02-02T00:00:00Z''\<rparr>,
         [RedisGet ''items:1'', Fetch, PgQuery SelectItemById [Str ''1''],
          RedisSet ''items:1'' (stringify row1) 60]))"
proof -
  have a: "redis_get (mem_env []) ''k'' mem0 = (Inr None, mem0) \<and> \<not> cached_truthy None
      \<and> fetch_all (mem_env []) (mem0, [] @ [RedisGet ''k'', Fetch])
          = (Inr (Arr []), (mem0, [RedisGet ''k'', Fetch, PgQuery SelectAllItems []]))
      \<and> redis_set (mem_env []) ''k'' (JSON_stringify (mem_env []) (Arr [])) 5 mem0
          = (Inr (), \<lparr>cache = [(''k'', ''[]'', 5)], table = [], next_id = 1,
                       now = ''2025-01-01T00:00:00Z''\<rparr>)"
    by (simp add: mem_defs fetch_all_def query_call_def)
  have b: "redis_get (mem_env []) ''items:all'' mem0 = (Inr None, mem0) \<and> \<not> cached_truthy None
      \<and> pg_query (mem_env []) SelectAllItems [] mem0 = (Inr \<lparr>rows = [], rowCount = 0\<rparr>, mem0)
      \<and> redis_set (mem_env []) ''items:all''
            (JSON_stringify (mem_env []) (Arr (rows \<lparr>rows = [], rowCount = 0\<rparr>))) 30 mem0
          = (Inr (), \<lparr>cache = [(''items:all'', ''[]'', 30)], table = [], next_id = 1,
                       now = ''2025-01-01T00:00:00Z''\<rparr>)"
    by (simp add: mem_defs)
  have c: "redis_get (mem_env []) (''items:'' @ id_param \<lparr>id_param = ''1'', body = []\<rparr>) mem1
          = (Inr None, mem1) \<and> \<not> cached_truthy None
      \<and> pg_query (mem_env []) SelectItemById [Str (id_param \<lparr>id_param = ''1'', body = []\<rparr>)] mem1
          = (Inr \<lparr>rows = [row1], rowCount = 1\<rparr>, mem1)
      \<and> rows \<lparr>rows = [row1], rowCount = 1\<rparr> = row1 # [] \<and> truthy row1
      \<and> redis_set (mem_env []) (''items:'' @ id_param \<lparr>id_param = ''1'', body = []\<rparr>)
            (JSON_stringify (mem_env []) row1) 60 mem1
          = (Inr (), \<lparr>cache = [(''items:1'', stringify row1, 60)], table = table mem1, next_id = 2,
                       now = ''2025-02-02T00:00:00Z''\<rparr>)"
    by (simp add: mem_env_def mem_get_def mem_set_def mem_query_def mem_select_def has_id_def
        mem1_def row1_def row_json_def dec_1)
  from a b c
    miss_fetches_once_and_populates [where fetchFn = "fetch_all (mem_env [])" and tr = "[]",
      THEN conjunct1, rule_format, OF a]
    miss_fetches_once_and_populates [THEN conjunct2, THEN conjunct1, rule_format, OF b]
    miss_fetches_once_and_populates [THEN conjunct2, THEN conjunct2, THEN conjunct1, rule_format, OF c]
  show ?thesis by (simp add: mem_env_def stringify_def)
qed


lemma get_items_hit:
  assumes "redis_get E ''items:all'' s = (Inr (Some c), s1)" and "c \<noteq> []"
    and "JSON_parse E c = Inr v"
  shows "get_items E (s, tr) = (\<lparr>status = 200, payload = Json v\<rparr>, (s1, tr @ [RedisGet ''items:all'']))"
  using assms(3) by (simp add: get_items_def cacheOrFetch_hit [OF assms(1,2)])

text \<open>
  Claim C6. When the lookup of a key returns a non-empty string that \<^verbatim>\<open>JSON.parse\<close>
  accepts, \<open>cacheOrFetch\<close> returns the parsed value having issued the lookup and nothing
  else: the fetch function is not run and no store statement is sent. (The empty string
  is not JSON text, so a valid serialised value is never empty.)
\<close>

theorem hit_returns_cached_without_fetch:
  "(redis_get E key s = (Inr (Some c), s1) \<and> c \<noteq> [] \<and> JSON_parse E c = Inr v
     \<longrightarrow> cacheOrFetch E key fetchFn ttl (s, tr) = (Inr v, (s1, tr @ [RedisGet key])))
   \<and> (redis_get E ''items:all'' s = (Inr (Some c), s1) \<and> c \<noteq> [] \<and> JSON_parse E c = Inr v
     \<longrightarrow> get_items E (s, tr)
           = (\<lparr>status = 200, payload = Json v\<rparr>, (s1, tr @ [RedisGet ''items:all''])))"
  using cacheOrFetch_hit [of E key s c s1 fetchFn ttl tr] get_items_hit [of E s c s1 v tr]
  by simp

theorem hit_returns_cached_without_fetch_witness:
  "cacheOrFetch (mem_env [Arr []]) ''items:all'' (fetch_all (mem_env [Arr []])) 30 (mem_cached_list, [])
     = (Inr (Arr []), (mem_cached_list, [RedisGet ''items:all'']))
   \<and> get_items (mem_env [Arr []]) (mem_cached_list, [])
     = (\<lparr>status = 200, payload = Json (Arr [])\<rparr>, (mem_cached_list, [RedisGet ''items:all'']))"
proof -
  have a: "redis_get (mem_env [Arr []]) ''items:all'' mem_cached_list
             = (Inr (Some ''[]''), mem_cached_list)
           \<and> ''[]'' \<noteq> [] \<and> JSON_parse (mem_env [Arr []]) ''[]'' = Inr (Arr [])"
    by (simp add: mem_defs mem_cached_list_def)
  from hit_returns_cached_without_fetch [where fetchFn = "fetch_all (mem_env [Arr []])" and tr = "[]",
         THEN conjunct1, rule_format, OF a]
       hit_returns_cached_without_fetch [where tr = "[]", THEN conjunct2, rule_format, OF a]
  show ?thesis by simp
qed


lemma get_items_fetch_rejected:
  assumes "redis_get E ''items:all'' s = (Inr cached, s1)" and "\<not> cached_truthy cached"
    and "pg_query E SelectAllItems [] s1 = (Inl e, s2)"
  shows "get_items E (s, [])
           = (\<lparr>status = 500, payload = ErrorBody ListFailed\<rparr>,
              (s2, [RedisGet ''items:all'', Fetch, PgQuery SelectAllItems []]))"
proof -
  have "fetch_all E (s1, [] @ [RedisGet ''items:all'', Fetch])
          = (Inl e, (s2, [RedisGet ''items:all'', Fetch, PgQuery SelectAllItems []]))"
    using fetch_all_rejected [OF assms(3)] by simp
  from cacheOrFetch_fetch_rejected [where fetchFn = "fetch_all E" and tr = "[]", OF assms(1,2) this]
  show ?thesis by (simp add: get_items_def)
qed

lemma get_item_fetch_rejected:
  assumes "redis_get E (''items:'' @ id_param req) s = (Inr cached, s1)"
    and "\<not> cached_truthy cached"
    and "pg_query E SelectItemById [Str (id_param req)] s1 = (Inl e, s2)"
  shows "get_item E req (s, [])
           = (\<lparr>status = 500, payload = ErrorBody GetFailed\<rparr>,
              (s2, [RedisGet (''items:'' @ id_param req), Fetch,
                    PgQuery SelectItemById [Str (id_param req)]]))"
proof -
  have "fetch_one E (id_param req) (s1, [] @ [RedisGet (''items:'' @ id_param req), Fetch])
          = (Inl e, (s2, [RedisGet (''items:'' @ id_param req), Fetch,
                            PgQuery SelectItemById [Str (id_param req)]]))"
    using fetch_one_rejected [OF assms(3)] by simp
  from cacheOrFetch_fetch_rejected [where fetchFn = "fetch_one E (id_param req)" and tr = "[]",
         OF assms(1,2) this]
  show ?thesis by (simp add: get_item_def Let_def)
qed

text \<open>
  Claim C7. When the lookup misses and the fetch function fails, \<open>cacheOrFetch\<close> ends
  with that same error in the state the fetch function left: nothing is written to the
  cache and the fetch function is not run again. In the handlers the store statement is
  the last call issued.
\<close>

theorem fetch_failure_rethrown_without_write:
  "(redis_get E key s = (Inr cached, s1) \<and> \<not> cached_truthy cached
      \<and> fetchFn (s1, tr @ [RedisGet key, Fetch]) = (Inl e, w2)
     \<longrightarrow> cacheOrFetch E key fetchFn ttl (s, tr) = (Inl e, w2))
   \<and> (redis_get E ''items:all'' s = (Inr cached, s1) \<and> \<not> cached_truthy cached
      \<and> pg_query E SelectAllItems [] s1 = (Inl e, s2)
     \<longrightarrow> get_items E (s, [])
           = (\<lparr>status = 500, payload = ErrorBody ListFailed\<rparr>,
              (s2, [RedisGet ''items:all'', Fetch, PgQuery SelectAllItems []])))
   \<and> (redis_get E (''items:'' @ id_param req) s = (Inr cached, s1) \<and> \<not> cached_truthy cached
      \<and> pg_query E SelectItemById [Str (id_param req)] s1 = (Inl e, s2)
     \<longrightarrow> get_item E req (s, [])
           = (\<lparr>status = 500, payload = ErrorBody GetFailed\<rparr>,
              (s2, [RedisGet (''items:'' @ id_param req), Fetch,
                    PgQuery SelectItemById [Str (id_param req)]])))"
  using cacheOrFetch_fetch_rejected [of E key s cached s1 fetchFn tr e w2 ttl]
    get_items_fetch_rejected [of E s cached s1 e s2]
    get_item_fetch_rejected [of E req s cached s1 e s2]
  by blast

theorem fetch_failure_rethrown_without_write_witness:
  "cacheOrFetch pg_down ''items:all'' (fetch_all pg_down) 30 (mem0, [])
     = (Inl (Error ''ECONNREFUSED''),
        (mem0, [RedisGet ''items:all'', Fetch, PgQuery SelectAllItems []]))
   \<and> get_items pg_down (mem0, [])
     = (\<lparr>status = 500, payload = ErrorBody ListFailed\<rparr>,
        (mem0, [RedisGet ''items:all'', Fetch, PgQuery SelectAllItems []]))
   \<and> get_item pg_down req7 (mem0, [])
     = (\<lparr>status = 500, payload = ErrorBody GetFailed\<rparr>,
        (mem0, [RedisGet ''items:7'', Fetch, PgQuery SelectItemById [Str ''7'']]))"
proof -
  have a: "redis_get pg_down ''items:all'' mem0 = (Inr None, mem0) \<and> \<not> cached_truthy None
      \<and> fetch_all pg_down (mem0, [] @ [RedisGet ''items:all'', Fetch])
          = (Inl (Error ''ECONNREFUSED''),
             (mem0, [RedisGet ''items:all'', Fetch, PgQuery SelectAllItems []]))"
    by (simp add: pg_down_def mem_defs fetch_all_def query_call_def)
  have b: "redis_get pg_down ''items:all'' mem0 = (Inr None, mem0) \<and> \<not> cached_truthy None
      \<and> pg_query pg_down SelectAllItems [] mem0 = (Inl (Error ''ECONNREFUSED''), mem0)"
    by (simp add: pg_down_def mem_defs)
  have c: "redis_get pg_down (''items:'' @ id_param req7) mem0 = (Inr None, mem0)
      \<and> \<not> cached_truthy None
      \<and> pg_query pg_down SelectItemById [Str (id_param req7)] mem0
          = (Inl (Error ''ECONNREFUSED''), mem0)"
    by (simp add: pg_down_def mem_defs req7_def)
  from fetch_failure_rethrown_without_write [where fetchFn = "fetch_all pg_down" and tr = "[]",
         THEN conjunct1, rule_format, OF a]
       fetch_failure_rethrown_without_write [THEN conjunct2, THEN conjunct1, rule_format, OF b]
       fetch_failure_rethrown_without_write [THEN conjunct2, THEN conjunct2, rule_format, OF c]
  show ?thesis by (simp add: req7_def)
qed



section \<open>What the coordinator does with absence and with an unreachable cache\<close>

lemma get_item_absent_cached:
  assumes "redis_get E (''items:'' @ id_param req) s = (Inr cached, s1)"
    and "\<not> cached_truthy cached"
    and "pg_query E SelectItemById [Str (id_param req)] s1 = (Inr q, s2)"
    and "rows q = []"
    and "JSON_stringify E Null = ''null''"
    and "redis_set E (''items:'' @ id_param req) ''null'' 60 s2 = (Inr ok, s3)"
  shows "get_item E req (s, [])
           = (\<lparr>status = 404, payload = ErrorBody ItemNotFound\<rparr>,
              (s3, [RedisGet (''items:'' @ id_param req), Fetch,
                    PgQuery SelectItemById [Str (id_param req)],
                    RedisSet (''items:'' @ id_param req) ''null'' 60]))"
proof -
  have "fetch_one E (id_param req) (s1, [] @ [RedisGet (''items:'' @ id_param req), Fetch])
          = (Inr Null, (s2, [RedisGet (''items:'' @ id_param req), Fetch,
                              PgQuery SelectItemById [Str (id_param req)]]))"
    using fetch_one_ok [OF assms(3)] assms(4) by (simp add: or_null_def)
  moreover have "redis_set E (''items:'' @ id_param req) (JSON_stringify E Null) 60 s2 = (Inr ok, s3)"
    using assms(5,6) by simp
  ultimately show ?thesis
    using cacheOrFetch_populates [where fetchFn = "fetch_one E (id_param req)" and tr = "[]"
        and result = Null, OF assms(1,2)] assms(5)
    by (simp add: get_item_def Let_def)
qed

lemma get_item_absent_served:
  assumes "redis_get E (''items:'' @ id_param req) s = (Inr (Some ''null''), s1)"
    and "JSON_parse E ''null'' = Inr Null"
  shows "get_item E req (s, [])
           = (\<lparr>status = 404, payload = ErrorBody ItemNotFound\<rparr>,
              (s1, [RedisGet (''items:'' @ id_param req)]))"
  using assms(2) cacheOrFetch_hit [where fetchFn = "fetch_one E (id_param req)" and tr = "[]" , OF assms(1)]
  by (simp add: get_item_def Let_def)

text \<open>
  Claim C1, as amended. An absent (\<^verbatim>\<open>null\<close>) single-item result is written to the cache
  like any other result: after a miss whose fetch returns \<^verbatim>\<open>null\<close>, the coordinator issues
  \<^verbatim>\<open>SET key "null" EX ttl\<close>; and a resolve whose lookup returns the text \<^verbatim>\<open>null\<close> returns
  \<^verbatim>\<open>null\<close> from the cache without running the fetch function. For \<^verbatim>\<open>GET /items/:id\<close>
  both calls answer 404, the second one without a store round-trip.
\<close>

theorem absent_result_is_cached:
  "(redis_get E key s = (Inr cached, s1) \<and> \<not> cached_truthy cached
      \<and> fetchFn (s1, tr @ [RedisGet key, Fetch]) = (Inr Null, (s2, tr2))
      \<and> JSON_stringify E Null = ''null''
      \<and> redis_set E key ''null'' ttl s2 = (Inr ok, s3)
     \<longrightarrow> cacheOrFetch E key fetchFn ttl (s, tr)
           = (Inr Null, (s3, tr2 @ [RedisSet key ''null'' ttl])))
   \<and> (redis_get E key s = (Inr (Some ''null''), s1) \<and> JSON_parse E ''null'' = Inr Null
     \<longrightarrow> cacheOrFetch E key fetchFn ttl (s, tr) = (Inr Null, (s1, tr @ [RedisGet key])))
   \<and> (redis_get E (''items:'' @ id_param req) s = (Inr cached, s1) \<and> \<not> cached_truthy cached
      \<and> pg_query E SelectItemById [Str (id_param req)] s1 = (Inr q, s2) \<and> rows q = []
      \<and> JSON_stringify E Null = ''null''
      \<and> redis_set E (''items:'' @ id_param req) ''null'' 60 s2 = (Inr ok, s3)
     \<longrightarrow> get_item E req (s, [])
           = (\<lparr>status = 404, payload = ErrorBody ItemNotFound\<rparr>,
              (s3, [RedisGet (''items:'' @ id_param req), Fetch,
                    PgQuery SelectItemById [Str (id_param req)],
                    RedisSet (''items:'' @ id_param req) ''null'' 60])))
   \<and> (redis_get E (''items:'' @ id_param req) s = (Inr (Some ''null''), s1)
      \<and> JSON_parse E ''null'' = Inr Null
     \<longrightarrow> get_item E req (s, [])
           = (\<lparr>status = 404, payload = ErrorBody ItemNotFound\<rparr>,
              (s1, [RedisGet (''items:'' @ id_param req)])))"
proof (intro conjI impI)
  assume h: "redis_get E key s = (Inr cached, s1) \<and> \<not> cached_truthy cached
      \<and> fetchFn (s1, tr @ [RedisGet key, Fetch]) = (Inr Null, (s2, tr2))
      \<and> JSON_stringify E Null = ''null''
      \<and> redis_set E key ''null'' ttl s2 = (Inr ok, s3)"
  then have "redis_set E key (JSON_stringify E Null) ttl s2 = (Inr ok, s3)" by simp
  with h cacheOrFetch_populates [of E key s cached s1 fetchFn tr Null s2 tr2 ttl ok s3]
  show "cacheOrFetch E key fetchFn ttl (s, tr) = (Inr Null, (s3, tr2 @ [RedisSet key ''null'' ttl]))"
    by simp
next
  assume "redis_get E key s = (Inr (Some ''null''), s1) \<and> JSON_parse E ''null'' = Inr Null"
  with cacheOrFetch_hit [of E key s "''null''" s1 fetchFn ttl tr]
  show "cacheOrFetch E key fetchFn ttl (s, tr) = (Inr Null, (s1, tr @ [RedisGet key]))"
    by simp
next
  assume "redis_get E (''items:'' @ id_param req) s = (Inr cached, s1) \<and> \<not> cached_truthy cached
      \<and> pg_query E SelectItemById [Str (id_param req)] s1 = (Inr q, s2) \<and> rows q = []
      \<and> JSON_stringify E Null = ''null''
      \<and> redis_set E (''items:'' @ id_param req) ''null'' 60 s2 = (Inr ok, s3)"
  with get_item_absent_cached [of E req s cached s1 q s2 ok s3]
  show "get_item E req (s, [])
           = (\<lparr>status = 404, payload = ErrorBody ItemNotFound\<rparr>,
              (s3, [RedisGet (''items:'' @ id_param req), Fetch,
                    PgQuery SelectItemById [Str (id_param req)],
                    RedisSet (''items:'' @ id_param req) ''null'' 60]))"
    by blast
next
  assume "redis_get E (''items:'' @ id_param req) s = (Inr (Some ''null''), s1)
      \<and> JSON_parse E ''null'' = Inr Null"
  with get_item_absent_served [of E req s s1]
  show "get_item E req (s, [])
           = (\<lparr>status = 404, payload = ErrorBody ItemNotFound\<rparr>,
              (s1, [RedisGet (''items:'' @ id_param req)]))"
    by blast
qed

text \<open>
  The claim as written fails on an empty store and an empty cache: the first
  \<^verbatim>\<open>GET /items/7\<close> writes \<^verbatim>\<open>null\<close> under \<^verbatim>\<open>items:7\<close> for 60 seconds, and the second is
  answered from that entry with no store statement.
\<close>

theorem absent_result_is_cached_counterexample:
  "get_item (mem_env [Null]) req7 (mem0, [])
     = (\<lparr>status = 404, payload = ErrorBody ItemNotFound\<rparr>,
        (mem_null7, [RedisGet ''items:7'', Fetch, PgQuery SelectItemById [Str ''7''],
                     RedisSet ''items:7'' ''null'' 60]))
   \<and> get_item (mem_env [Null]) req7 (mem_null7, [])
     = (\<lparr>status = 404, payload = ErrorBody ItemNotFound\<rparr>, (mem_null7, [RedisGet ''items:7'']))"
  by (simp add: get_item_def cacheOrFetch_def fetch_one_def call_defs mem_defs or_null_def Let_def
      req7_def mem_null7_def)


theorem absent_result_is_cached_witness:
  "get_item (mem_env [Null]) req2 (mem1, [])
     = (\<lparr>status = 404, payload = ErrorBody ItemNotFound\<rparr>,
        (mem1_null2, [RedisGet ''items:2'', Fetch, PgQuery SelectItemById [Str ''2''],
                      RedisSet ''items:2'' ''null'' 60]))
   \<and> get_item (mem_env [Null]) req2 (mem1_null2, [])
     = (\<lparr>status = 404, payload = ErrorBody ItemNotFound\<rparr>, (mem1_null2, [RedisGet ''items:2'']))
   \<and> cacheOrFetch (mem_env [Null]) ''items:2'' (fetch_one (mem_env [Null]) ''2'') 60 (mem1, [])
     = (Inr Null, (mem1_null2, [RedisGet ''items:2'', Fetch, PgQuery SelectItemById [Str ''2''],
                                RedisSet ''items:2'' ''null'' 60]))
   \<and> cacheOrFetch (mem_env [Null]) ''items:2'' (fetch_one (mem_env [Null]) ''2'') 60 (mem1_null2, [])
     = (Inr Null, (mem1_null2, [RedisGet ''items:2'']))"
proof -
  have a: "redis_get (mem_env [Null]) ''items:2'' mem1 = (Inr None, mem1) \<and> \<not> cached_truthy None
      \<and> fetch_one (mem_env [Null]) ''2'' (mem1, [] @ [RedisGet ''items:2'', Fetch])
          = (Inr Null, (mem1, [RedisGet ''items:2'', Fetch, PgQuery SelectItemById [Str ''2'']]))
      \<and> JSON_stringify (mem_env [Null]) Null = ''null''
      \<and> redis_set (mem_env [Null]) ''items:2'' ''null'' 60 mem1 = (Inr (), mem1_null2)"
    by (simp add: mem_env_def mem_get_def mem_set_def mem_query_def mem_select_def has_id_def
        stringify_def mem1_def mem1_null2_def fetch_one_def query_call_def or_null_def dec_1)
  have b: "redis_get (mem_env [Null]) ''items:2'' mem1_null2 = (Inr (Some ''null''), mem1_null2)
      \<and> JSON_parse (mem_env [Null]) ''null'' = Inr Null"
    by (simp add: mem_env_def mem_get_def parse_among_def stringify_def mem1_null2_def)
  have c: "redis_get (mem_env [Null]) (''items:'' @ id_param req2) mem1 = (Inr None, mem1)
      \<and> \<not> cached_truthy None
      \<and> pg_query (mem_env [Null]) SelectItemById [Str (id_param req2)] mem1
          = (Inr \<lparr>rows = [], rowCount = 0\<rparr>, mem1)
      \<and> rows \<lparr>rows = [], rowCount = 0\<rparr> = []
      \<and> JSON_stringify (mem_env [Null]) Null = ''null''
      \<and> redis_set (mem_env [Null]) (''items:'' @ id_param req2) ''null'' 60 mem1
          = (Inr (), mem1_null2)"
    by (simp add: mem_env_def mem_get_def mem_set_def mem_query_def mem_select_def has_id_def
        stringify_def mem1_def mem1_null2_def req2_def dec_1)
  have d: "redis_get (mem_env [Null]) (''items:'' @ id_param req2) mem1_null2
          = (Inr (Some ''null''), mem1_null2)
      \<and> JSON_parse (mem_env [Null]) ''null'' = Inr Null"
    by (simp add: mem_env_def mem_get_def parse_among_def stringify_def mem1_null2_def req2_def)
  from absent_result_is_cached [where fetchFn = "fetch_one (mem_env [Null]) ''2''" and tr = "[]",
         THEN conjunct1, rule_format, OF a]
       absent_result_is_cached [where fetchFn = "fetch_one (mem_env [Null]) ''2''" and tr = "[]",
         THEN conjunct2, THEN conjunct1, rule_format, OF b]
       absent_result_is_cached [THEN conjunct2, THEN conjunct2, THEN conjunct1, rule_format, OF c]
       absent_result_is_cached [THEN conjunct2, THEN conjunct2, THEN conjunct2, rule_format, OF d]
  show ?thesis by (simp add: req2_def)
qed


lemma get_items_read_rejected:
  assumes "redis_get E ''items:all'' s = (Inl e, s1)"
  shows "get_items E (s, tr)
           = (\<lparr>status = 500, payload = ErrorBody ListFailed\<rparr>, (s1, tr @ [RedisGet ''items:all'']))"
  by (simp add: get_items_def cacheOrFetch_read_rejected [OF assms])

lemma get_item_read_rejected:
  assumes "redis_get E (''items:'' @ id_param req) s = (Inl e, s1)"
  shows "get_item E req (s, tr)
           = (\<lparr>status = 500, payload = ErrorBody GetFailed\<rparr>,
              (s1, tr @ [RedisGet (''items:'' @ id_param req)]))"
  using cacheOrFetch_read_rejected [where fetchFn = "fetch_one E (id_param req)" and ttl = 60
      and tr = tr, OF assms]
  by (simp add: get_item_def Let_def)

text \<open>
  Claim C2, as amended. When the cache read fails, \<open>cacheOrFetch\<close> ends with that
  error right after the lookup: the fetch function is not run, and the list and detail
  handlers answer 500.
\<close>

theorem cache_read_failure_is_rethrown:
  "(redis_get E key s = (Inl e, s1)
     \<longrightarrow> cacheOrFetch E key fetchFn ttl (s, tr) = (Inl e, (s1, tr @ [RedisGet key])))
   \<and> (redis_get E ''items:all'' s = (Inl e, s1)
     \<longrightarrow> get_items E (s, tr)
           = (\<lparr>status = 500, payload = ErrorBody ListFailed\<rparr>, (s1, tr @ [RedisGet ''items:all''])))
   \<and> (redis_get E (''items:'' @ id_param req) s = (Inl e, s1)
     \<longrightarrow> get_item E req (s, tr)
           = (\<lparr>status = 500, payload = ErrorBody GetFailed\<rparr>,
              (s1, tr @ [RedisGet (''items:'' @ id_param req)])))"
  using cacheOrFetch_read_rejected [of E key s e s1 fetchFn ttl tr]
    get_items_read_rejected [of E s e s1 tr] get_item_read_rejected [of E req s e s1 tr]
  by blast

text \<open>
  The claim as written fails when \<^verbatim>\<open>redis.get\<close> is unreachable: the only call issued is the
  lookup, and \<^verbatim>\<open>GET /items\<close> answers 500 although the store is reachable.
\<close>

theorem cache_read_failure_is_rethrown_counterexample:
  "cacheOrFetch read_down ''items:all'' (fetch_all read_down) 30 (mem0, [])
     = (Inl (Error ''ECONNREFUSED''), (mem0, [RedisGet ''items:all'']))
   \<and> get_items read_down (mem0, [])
     = (\<lparr>status = 500, payload = ErrorBody ListFailed\<rparr>, (mem0, [RedisGet ''items:all'']))"
  by (simp add: get_items_def cacheOrFetch_def get_call_def read_down_def mem_env_def
      unreachable_def)

theorem cache_read_failure_is_rethrown_witness:
  "cacheOrFetch read_down ''items:1'' (fetch_one read_down ''1'') 60 (mem1, [])
     = (Inl (Error ''ECONNREFUSED''), (mem1, [RedisGet ''items:1'']))
   \<and> get_items read_down (mem1, [])
     = (\<lparr>status = 500, payload = ErrorBody ListFailed\<rparr>, (mem1, [RedisGet ''items:all'']))
   \<and> get_item read_down req2 (mem1, [])
     = (\<lparr>status = 500, payload = ErrorBody GetFailed\<rparr>, (mem1, [RedisGet ''items:2'']))"
proof -
  have a: "redis_get read_down ''items:1'' mem1 = (Inl (Error ''ECONNREFUSED''), mem1)"
    and b: "redis_get read_down ''items:all'' mem1 = (Inl (Error ''ECONNREFUSED''), mem1)"
    and c: "redis_get read_down (''items:'' @ id_param req2) mem1
              = (Inl (Error ''ECONNREFUSED''), mem1)"
    by (simp_all add: read_down_def mem_env_def unreachable_def)
  from cache_read_failure_is_rethrown [where fetchFn = "fetch_one read_down ''1''" and tr = "[]",
         THEN conjunct1, rule_format, OF a]
       cache_read_failure_is_rethrown [where tr = "[]", THEN conjunct2, THEN conjunct1, rule_format, OF b]
       cache_read_failure_is_rethrown [where tr = "[]", THEN conjunct2, THEN conjunct2, rule_format, OF c]
  show ?thesis by (simp add: req2_def)
qed


lemma get_items_write_rejected:
  assumes "redis_get E ''items:all'' s = (Inr cached, s1)" and "\<not> cached_truthy cached"
    and "pg_query E SelectAllItems [] s1 = (Inr q, s2)"
    and "redis_set E ''items:all'' (JSON_stringify E (Arr (rows q))) 30 s2 = (Inl e, s3)"
  shows "get_items E (s, [])
           = (\<lparr>status = 500, payload = ErrorBody ListFailed\<rparr>,
              (s3, [RedisGet ''items:all'', Fetch, PgQuery SelectAllItems [],
                    RedisSet ''items:all'' (JSON_stringify E (Arr (rows q))) 30]))"
proof -
  have "fetch_all E (s1, [] @ [RedisGet ''items:all'', Fetch])
          = (Inr (Arr (rows q)), (s2, [RedisGet ''items:all'', Fetch, PgQuery SelectAllItems []]))"
    using fetch_all_ok [OF assms(3)] by simp
  from cacheOrFetch_write_rejected [where fetchFn = "fetch_all E" and tr = "[]",
         OF assms(1,2) this assms(4)]
  show ?thesis by (simp add: get_items_def)
qed

lemma get_item_write_rejected:
  assumes "redis_get E (''items:'' @ id_param req) s = (Inr cached, s1)"
    and "\<not> cached_truthy cached"
    and "pg_query E SelectItemById [Str (id_param req)] s1 = (Inr q, s2)"
    and "redis_set E (''items:'' @ id_param req)
           (JSON_stringify E (or_null (first_row (rows q)))) 60 s2 = (Inl e, s3)"
  shows "get_item E req (s, [])
           = (\<lparr>status = 500, payload = ErrorBody GetFailed\<rparr>,
              (s3, [RedisGet (''items:'' @ id_param req), Fetch,
                    PgQuery SelectItemById [Str (id_param req)],
                    RedisSet (''items:'' @ id_param req)
                      (JSON_stringify E (or_null (first_row (rows q)))) 60]))"
proof -
  have "fetch_one E (id_param req) (s1, [] @ [RedisGet (''items:'' @ id_param req), Fetch])
          = (Inr (or_null (first_row (rows q))),
             (s2, [RedisGet (''items:'' @ id_param req), Fetch,
                   PgQuery SelectItemById [Str (id_param req)]]))"
    using fetch_one_ok [OF assms(3)] by simp
  from cacheOrFetch_write_rejected [where fetchFn = "fetch_one E (id_param req)" and tr = "[]",
         OF assms(1,2) this assms(4)]
  show ?thesis by (simp add: get_item_def Let_def)
qed

text \<open>
  Claim C3, as amended. When the lookup misses, the fetch succeeds and the cache write
  fails, \<open>cacheOrFetch\<close> ends with the write's error instead of the fetched value, and
  the list and detail handlers answer 500.
\<close>

theorem cache_write_failure_is_rethrown:
  "(redis_get E key s = (Inr cached, s1) \<and> \<not> cached_truthy cached
      \<and> fetchFn (s1, tr @ [RedisGet key, Fetch]) = (Inr result, (s2, tr2))
      \<and> redis_set E key (JSON_stringify E result) ttl s2 = (Inl e, s3)
     \<longrightarrow> cacheOrFetch E key fetchFn ttl (s, tr)
           = (Inl e, (s3, tr2 @ [RedisSet key (JSON_stringify E result) ttl])))
   \<and> (redis_get E ''items:all'' s = (Inr cached, s1) \<and> \<not> cached_truthy cached
      \<and> pg_query E SelectAllItems [] s1 = (Inr q, s2)
      \<and> redis_set E ''items:all'' (JSON_stringify E (Arr (rows q))) 30 s2 = (Inl e, s3)
     \<longrightarrow> get_items E (s, [])
           = (\<lparr>status = 500, payload = ErrorBody ListFailed\<rparr>,
              (s3, [RedisGet ''items:all'', Fetch, PgQuery SelectAllItems [],
                    RedisSet ''items:all'' (JSON_stringify E (Arr (rows q))) 30])))
   \<and> (redis_get E (''items:'' @ id_param req) s = (Inr cached, s1) \<and> \<not> cached_truthy cached
      \<and> pg_query E SelectItemById [Str (id_param req)] s1 = (Inr q, s2)
      \<and> redis_set E (''items:'' @ id_param req)
           (JSON_stringify E (or_null (first_row (rows q)))) 60 s2 = (Inl e, s3)
     \<longrightarrow> get_item E req (s, [])
           = (\<lparr>status = 500, payload = ErrorBody GetFailed\<rparr>,
              (s3, [RedisGet (''items:'' @ id_param req), Fetch,
                    PgQuery SelectItemById [Str (id_param req)],
                    RedisSet (''items:'' @ id_param req)
                      (JSON_stringify E (or_null (first_row (rows q)))) 60])))"
  using cacheOrFetch_write_rejected [of E key s cached s1 fetchFn tr result s2 tr2 ttl e s3]
    get_items_write_rejected [of E s cached s1 q s2 e s3]
    get_item_write_rejected [of E req s cached s1 q s2 e s3]
  by blast

text \<open>
  The claim as written fails when \<^verbatim>\<open>redis.set\<close> is unreachable: the rows are fetched, the
  write is attempted, and the caller gets the write's error.
\<close>

theorem cache_write_failure_is_rethrown_counterexample:
  "cacheOrFetch write_down ''items:all'' (fetch_all write_down) 30 (mem0, [])
     = (Inl (Error ''ECONNREFUSED''),
        (mem0, [RedisGet ''items:all'', Fetch, PgQuery SelectAllItems [],
                RedisSet ''items:all'' ''[]'' 30]))
   \<and> get_items write_down (mem0, [])
     = (\<lparr>status = 500, payload = ErrorBody ListFailed\<rparr>,
        (mem0, [RedisGet ''items:all'', Fetch, PgQuery SelectAllItems [],
                RedisSet ''items:all'' ''[]'' 30]))"
  by (simp add: get_items_def cacheOrFetch_def fetch_all_def call_defs write_down_def mem_defs)

theorem cache_write_failure_is_rethrown_witness:
  "cacheOrFetch write_down ''items:1'' (fetch_one write_down ''1'') 60 (mem1, [])
     = (Inl (Error ''ECONNREFUSED''),
        (mem1, [RedisGet ''items:1'', Fetch, PgQuery SelectItemById [Str ''1''],
                RedisSet ''items:1'' (stringify row1) 60]))
   \<and> get_items write_down (mem1, [])
     = (\<lparr>status = 500, payload = ErrorBody ListFailed\<rparr>,
        (mem1, [RedisGet ''items:all'', Fetch, PgQuery SelectAllItems [],
                RedisSet ''items:all'' (stringify (Arr [row1])) 30]))
   \<and> get_item write_down req2 (mem1, [])
     = (\<lparr>status = 500, payload = ErrorBody GetFailed\<rparr>,
        (mem1, [RedisGet ''items:2'', Fetch, PgQuery SelectItemById [Str ''2''],
                RedisSet ''items:2'' ''null'' 60]))"
proof -
  have a: "redis_get write_down ''items:1'' mem1 = (Inr None, mem1) \<and> \<not> cached_truthy None
      \<and> fetch_one write_down ''1'' (mem1, [] @ [RedisGet ''items:1'', Fetch])
          = (Inr row1, (mem1, [RedisGet ''items:1'', Fetch, PgQuery SelectItemById [Str ''1'']]))
      \<and> redis_set write_down ''items:1'' (JSON_stringify write_down row1) 60 mem1
          = (Inl (Error ''ECONNREFUSED''), mem1)"
    by (simp add: write_down_def mem_env_def mem_get_def mem_query_def mem_select_def has_id_def
        unreachable_def mem1_def row1_def row_json_def fetch_one_def query_call_def or_null_def
        dec_1)
  have b: "redis_get write_down ''items:all'' mem1 = (Inr None, mem1) \<and> \<not> cached_truthy None
      \<and> pg_query write_down SelectAllItems [] mem1 = (Inr \<lparr>rows = [row1], rowCount = 1\<rparr>, mem1)
      \<and> redis_set write_down ''items:all''
           (JSON_stringify write_down (Arr (rows \<lparr>rows = [row1], rowCount = 1\<rparr>))) 30 mem1
          = (Inl (Error ''ECONNREFUSED''), mem1)"
    by (simp add: write_down_def mem_env_def mem_get_def mem_query_def mem_select_all_def
        unreachable_def mem1_def row1_def row_json_def)
  have c: "redis_get write_down (''items:'' @ id_param req2) mem1 = (Inr None, mem1)
      \<and> \<not> cached_truthy None
      \<and> pg_query write_down SelectItemById [Str (id_param req2)] mem1
          = (Inr \<lparr>rows = [], rowCount = 0\<rparr>, mem1)
      \<and> redis_set write_down (''items:'' @ id_param req2)
           (JSON_stringify write_down (or_null (first_row (rows \<lparr>rows = [], rowCount = 0\<rparr>)))) 60 mem1
          = (Inl (Error ''ECONNREFUSED''), mem1)"
    by (simp add: write_down_def mem_env_def mem_get_def mem_query_def mem_select_def has_id_def
        unreachable_def mem1_def req2_def dec_1)
  from cache_write_failure_is_rethrown [where fetchFn = "fetch_one write_down ''1''" and tr = "[]",
         THEN conjunct1, rule_format, OF a]
       cache_write_failure_is_rethrown [THEN conjunct2, THEN conjunct1, rule_format, OF b]
       cache_write_failure_is_rethrown [THEN conjunct2, THEN conjunct2, rule_format, OF c]
  show ?thesis
    by (simp add: req2_def write_down_def mem_env_def or_null_def stringify_def)
qed


section \<open>Write path\<close>

lemma post_items_invalidation_rejected:
  assumes "truthy (get_prop (body req) ''name'')"
    and "pg_query E InsertItem [get_prop (body req) ''name'',
           or_null (get_prop (body req) ''description'')] s = (Inr q, s1)"
    and "redis_del E ''items:all'' s1 = (Inl e, s2)"
  shows "post_items E req (s, tr)
           = (\<lparr>status = 500, payload = ErrorBody CreateFailed\<rparr>,
              (s2, tr @ [PgQuery InsertItem [get_prop (body req) ''name'',
                           or_null (get_prop (body req) ''description'')],
                         RedisDel ''items:all'']))"
  using assms by (simp add: post_items_def query_call_def del_call_def Let_def)

lemma del_both_rejected:
  assumes "redis_del E k1 s1 = (r1, s2)" and "redis_del E k2 s2 = (r2, s3)"
    and "isl r1 \<or> isl r2"
  shows "\<exists>e. del_both E k1 k2 (s1, tr) = (Inl e, (s3, tr @ [RedisDel k1, RedisDel k2]))"
  using assms by (cases r1; cases r2) (simp_all add: del_both_def del_call_def)

lemma del_both_ok:
  assumes "redis_del E k1 s1 = (Inr n1, s2)" and "redis_del E k2 s2 = (Inr n2, s3)"
  shows "del_both E k1 k2 (s1, tr) = (Inr (), (s3, tr @ [RedisDel k1, RedisDel k2]))"
  using assms by (simp add: del_both_def del_call_def)

lemma put_item_invalidation_rejected:
  assumes "truthy (get_prop (body req) ''name'')"
    and "pg_query E UpdateItem [get_prop (body req) ''name'',
           or_null (get_prop (body req) ''description''), Str (id_param req)] s = (Inr q, s1)"
    and "rows q \<noteq> []"
    and "redis_del E ''items:all'' s1 = (r1, s2)"
    and "redis_del E (''items:'' @ id_param req) s2 = (r2, s3)"
    and "isl r1 \<or> isl r2"
  shows "put_item E req (s, tr)
           = (\<lparr>status = 500, payload = ErrorBody UpdateFailed\<rparr>,
              (s3, tr @ [PgQuery UpdateItem [get_prop (body req) ''name'',
                           or_null (get_prop (body req) ''description''), Str (id_param req)],
                         RedisDel ''items:all'', RedisDel (''items:'' @ id_param req)]))"
proof -
  from del_both_rejected [OF assms(4,5,6)] obtain e where
    "del_both E ''items:all'' (''items:'' @ id_param req)
       (s1, tr @ [PgQuery UpdateItem [get_prop (body req) ''name'',
                           or_null (get_prop (body req) ''description''), Str (id_param req)]])
     = (Inl e, (s3, (tr @ [PgQuery UpdateItem [get_prop (body req) ''name'',
                           or_null (get_prop (body req) ''description''), Str (id_param req)]])
                    @ [RedisDel ''items:all'', RedisDel (''items:'' @ id_param req)]))"
    by blast
  with assms(1,2,3) show ?thesis
    by (simp add: put_item_def query_call_def Let_def)
qed

lemma delete_item_invalidation_rejected:
  assumes "pg_query E DeleteItem [Str (id_param req)] s = (Inr q, s1)"
    and "rowCount q \<noteq> 0"
    and "redis_del E ''items:all'' s1 = (r1, s2)"
    and "redis_del E (''items:'' @ id_param req) s2 = (r2, s3)"
    and "isl r1 \<or> isl r2"
  shows "delete_item E req (s, tr)
           = (\<lparr>status = 500, payload = ErrorBody DeleteFailed\<rparr>,
              (s3, tr @ [PgQuery DeleteItem [Str (id_param req)],
                         RedisDel ''items:all'', RedisDel (''items:'' @ id_param req)]))"
proof -
  from del_both_rejected [OF assms(3,4,5)] obtain e where
    "del_both E ''items:all'' (''items:'' @ id_param req)
       (s1, tr @ [PgQuery DeleteItem [Str (id_param req)]])
     = (Inl e, (s3, (tr @ [PgQuery DeleteItem [Str (id_param req)]])
                    @ [RedisDel ''items:all'', RedisDel (''items:'' @ id_param req)]))"
    by blast
  with assms(1,2) show ?thesis
    by (simp add: delete_item_def query_call_def Let_def)
qed

text \<open>
  Claim C4, as amended. When the store mutation of a write request has succeeded and
  an invalidation command then fails, the handler answers 500: Create when
  \<^verbatim>\<open>DEL items:all\<close> fails, Replace and Delete when either of their two \<^verbatim>\<open>DEL\<close> commands
  fails (both having been issued). The mutation stays committed and nothing is retried.
\<close>

theorem invalidation_failure_is_surfaced:
  "(truthy (get_prop (body req) ''name'')
      \<and> pg_query E InsertItem [get_prop (body req) ''name'',
            or_null (get_prop (body req) ''description'')] s = (Inr q, s1)
      \<and> redis_del E ''items:all'' s1 = (Inl e, s2)
     \<longrightarrow> post_items E req (s, tr)
           = (\<lparr>status = 500, payload = ErrorBody CreateFailed\<rparr>,
              (s2, tr @ [PgQuery InsertItem [get_prop (body req) ''name'',
                           or_null (get_prop (body req) ''description'')],
                         RedisDel ''items:all''])))
   \<and> (truthy (get_prop (body req) ''name'')
      \<and> pg_query E UpdateItem [get_prop (body req) ''name'',
            or_null (get_prop (body req) ''description''), Str (id_param req)] s = (Inr q, s1)
      \<and> rows q \<noteq> []
      \<and> redis_del E ''items:all'' s1 = (r1, s2)
      \<and> redis_del E (''items:'' @ id_param req) s2 = (r2, s3)
      \<and> (isl r1 \<or> isl r2)
     \<longrightarrow> put_item E req (s, tr)
           = (\<lparr>status = 500, payload = ErrorBody UpdateFailed\<rparr>,
              (s3, tr @ [PgQuery UpdateItem [get_prop (body req) ''name'',
                           or_null (get_prop (body req) ''description''), Str (id_param req)],
                         RedisDel ''items:all'', RedisDel (''items:'' @ id_param req)])))
   \<and> (pg_query E DeleteItem [Str (id_param req)] s = (Inr q, s1)
      \<and> rowCount q \<noteq> 0
      \<and> redis_del E ''items:all'' s1 = (r1, s2)
      \<and> redis_del E (''items:'' @ id_param req) s2 = (r2, s3)
      \<and> (isl r1 \<or> isl r2)
     \<longrightarrow> delete_item E req (s, tr)
           = (\<lparr>status = 500, payload = ErrorBody DeleteFailed\<rparr>,
              (s3, tr @ [PgQuery DeleteItem [Str (id_param req)],
                         RedisDel ''items:all'', RedisDel (''items:'' @ id_param req)])))"
  using post_items_invalidation_rejected [of req E s q s1 e s2 tr]
    put_item_invalidation_rejected [of req E s q s1 r1 s2 r2 s3 tr]
    delete_item_invalidation_rejected [of E req s q s1 r1 s2 r2 s3 tr]
  by blast

text \<open>
  The claim as written fails when \<^verbatim>\<open>redis.del\<close> is unreachable: \<^verbatim>\<open>POST /items\<close> with
  \<^verbatim>\<open>{name: "X", description: ""}\<close> inserts the row and answers 500.
\<close>

theorem invalidation_failure_is_surfaced_counterexample:
  "post_items del_down reqX (mem0, [])
     = (\<lparr>status = 500, payload = ErrorBody CreateFailed\<rparr>,
        (memX, [PgQuery InsertItem [Str ''X'', Null], RedisDel ''items:all'']))"
  by (simp add: post_items_def query_call_def del_call_def Let_def del_down_def mem_defs
      reqX_def memX_def itemX_def get_prop_def or_null_def)

theorem invalidation_failure_is_surfaced_witness:
  "fst (post_items del_down reqX (mem1, [])) = \<lparr>status = 500, payload = ErrorBody CreateFailed\<rparr>
   \<and> snd (snd (post_items del_down reqX (mem1, [])))
       = [PgQuery InsertItem [Str ''X'', Null], RedisDel ''items:all'']
   \<and> fst (put_item del_down reqX (mem1, [])) = \<lparr>status = 500, payload = ErrorBody UpdateFailed\<rparr>
   \<and> snd (snd (put_item del_down reqX (mem1, [])))
       = [PgQuery UpdateItem [Str ''X'', Null, Str ''1''], RedisDel ''items:all'',
          RedisDel ''items:1'']
   \<and> fst (delete_item del_down reqX (mem1, []))
       = \<lparr>status = 500, payload = ErrorBody DeleteFailed\<rparr>
   \<and> snd (snd (delete_item del_down reqX (mem1, [])))
       = [PgQuery DeleteItem [Str ''1''], RedisDel ''items:all'', RedisDel ''items:1'']"
proof -
  have name: "truthy (get_prop (body reqX) ''name'')"
    by (simp add: reqX_def get_prop_def)
  have down: "\<And>k m. redis_del del_down k m = (Inl (Error ''ECONNREFUSED''), m)"
    by (simp add: del_down_def mem_env_def unreachable_def)
  have "\<exists>q s1. pg_query del_down InsertItem [get_prop (body reqX) ''name'',
            or_null (get_prop (body reqX) ''description'')] mem1 = (Inr q, s1)"
    by (simp add: del_down_def mem_defs)
  then obtain q s1 where ins: "pg_query del_down InsertItem [get_prop (body reqX) ''name'',
            or_null (get_prop (body reqX) ''description'')] mem1 = (Inr q, s1)"
    by blast
  have "\<exists>q s1. pg_query del_down UpdateItem [get_prop (body reqX) ''name'',
            or_null (get_prop (body reqX) ''description''), Str (id_param reqX)] mem1 = (Inr q, s1)
          \<and> rows q \<noteq> []"
    by (simp add: del_down_def mem_env_def mem_query_def mem_update_def has_id_def mem1_def
        reqX_def dec_1)
  then obtain q' s1' where upd: "pg_query del_down UpdateItem [get_prop (body reqX) ''name'',
            or_null (get_prop (body reqX) ''description''), Str (id_param reqX)] mem1 = (Inr q', s1')"
      and upd_rows: "rows q' \<noteq> []"
    by blast
  have "\<exists>q s1. pg_query del_down DeleteItem [Str (id_param reqX)] mem1 = (Inr q, s1)
          \<and> rowCount q \<noteq> 0"
    by (simp add: del_down_def mem_env_def mem_query_def mem_delete_def has_id_def mem1_def
        reqX_def dec_1)
  then obtain q'' s1'' where del: "pg_query del_down DeleteItem [Str (id_param reqX)] mem1
        = (Inr q'', s1'')" and del_count: "rowCount q'' \<noteq> 0"
    by blast
  have l: "isl (Inl (Error ''ECONNREFUSED'') :: error + nat)
            \<or> isl (Inl (Error ''ECONNREFUSED'') :: error + nat)"
    by simp
  from invalidation_failure_is_surfaced [where tr = "[]", THEN conjunct1, rule_format,
         OF conjI [OF name conjI [OF ins down]]]
       invalidation_failure_is_surfaced [where tr = "[]", THEN conjunct2, THEN conjunct1, rule_format,
         OF conjI [OF name conjI [OF upd conjI [OF upd_rows conjI [OF down conjI [OF down l]]]]]]
       invalidation_failure_is_surfaced [where tr = "[]", THEN conjunct2, THEN conjunct2, rule_format,
         OF conjI [OF del conjI [OF del_count conjI [OF down conjI [OF down l]]]]]
  show ?thesis
    by (simp add: reqX_def get_prop_def or_null_def)
qed

lemma put_item_not_found:
  assumes "truthy (get_prop (body req) ''name'')"
    and "pg_query E UpdateItem [get_prop (body req) ''name'',
           or_null (get_prop (body req) ''description''), Str (id_param req)] s = (Inr q, s1)"
    and "rows q = []"
  shows "put_item E req (s, tr)
           = (\<lparr>status = 404, payload = ErrorBody ItemMissing\<rparr>,
              (s1, tr @ [PgQuery UpdateItem [get_prop (body req) ''name'',
                           or_null (get_prop (body req) ''description''), Str (id_param req)]]))"
  using assms by (simp add: put_item_def query_call_def Let_def)

lemma delete_item_not_found:
  assumes "pg_query E DeleteItem [Str (id_param req)] s = (Inr q, s1)"
    and "rowCount q = 0"
  shows "delete_item E req (s, tr)
           = (\<lparr>status = 404, payload = ErrorBody ItemNotFound\<rparr>,
              (s1, tr @ [PgQuery DeleteItem [Str (id_param req)]]))"
  using assms by (simp add: delete_item_def query_call_def Let_def)

text \<open>
  Claim C8. When the \<^verbatim>\<open>UPDATE\<close> of a Replace returns no row, or the \<^verbatim>\<open>DELETE\<close> of a Delete
  reports a row count of zero, the handler answers 404 and the store statement is the
  only call it has issued: no \<^verbatim>\<open>DEL\<close> is sent.
\<close>

theorem zero_rows_is_not_found_without_invalidation:
  "(truthy (get_prop (body req) ''name'')
      \<and> pg_query E UpdateItem [get_prop (body req) ''name'',
            or_null (get_prop (body req) ''description''), Str (id_param req)] s = (Inr q, s1)
      \<and> rows q = []
     \<longrightarrow> put_item E req (s, tr)
           = (\<lparr>status = 404, payload = ErrorBody ItemMissing\<rparr>,
              (s1, tr @ [PgQuery UpdateItem [get_prop (body req) ''name'',
                           or_null (get_prop (body req) ''description''), Str (id_param req)]])))
   \<and> (pg_query E DeleteItem [Str (id_param req)] s = (Inr q, s1) \<and> rowCount q = 0
     \<longrightarrow> delete_item E req (s, tr)
           = (\<lparr>status = 404, payload = ErrorBody ItemNotFound\<rparr>,
              (s1, tr @ [PgQuery DeleteItem [Str (id_param req)]])))"
  using put_item_not_found [of req E s q s1 tr] delete_item_not_found [of E req s q s1 tr]
  by blast

theorem zero_rows_is_not_found_without_invalidation_witness:
  "put_item (mem_env []) req999 (mem1, [])
     = (\<lparr>status = 404, payload = ErrorBody ItemMissing\<rparr>,
        (mem1, [PgQuery UpdateItem [Str ''N'', Null, Str ''999'']]))
   \<and> delete_item (mem_env []) req999 (mem1, [])
     = (\<lparr>status = 404, payload = ErrorBody ItemNotFound\<rparr>,
        (mem1, [PgQuery DeleteItem [Str ''999'']]))"
proof -
  have a: "truthy (get_prop (body req999) ''name'')
      \<and> pg_query (mem_env []) UpdateItem [get_prop (body req999) ''name'',
            or_null (get_prop (body req999) ''description''), Str (id_param req999)] mem1
          = (Inr \<lparr>rows = [], rowCount = 0\<rparr>, mem1)
      \<and> rows \<lparr>rows = [], rowCount = 0\<rparr> = []"
    by (simp add: mem_env_def mem_query_def mem_update_def has_id_def mem1_def req999_def
        get_prop_def or_null_def dec_1)
  have b: "pg_query (mem_env []) DeleteItem [Str (id_param req999)] mem1
          = (Inr \<lparr>rows = [], rowCount = 0\<rparr>, mem1)
      \<and> rowCount \<lparr>rows = [], rowCount = 0\<rparr> = 0"
    by (simp add: mem_env_def mem_query_def mem_delete_def has_id_def mem1_def req999_def
        dec_1)
  from zero_rows_is_not_found_without_invalidation [where tr = "[]", THEN conjunct1, rule_format, OF a]
       zero_rows_is_not_found_without_invalidation [where tr = "[]", THEN conjunct2, rule_format, OF b]
  show ?thesis by (simp add: req999_def get_prop_def or_null_def)
qed


lemma post_items_success:
  "status (fst (post_items E req (s, []))) = 201 \<longrightarrow>
     (\<exists>q s1 n s2.
        pg_query E InsertItem [get_prop (body req) ''name'',
          or_null (get_prop (body req) ''description'')] s = (Inr q, s1)
        \<and> redis_del E ''items:all'' s1 = (Inr n, s2)
        \<and> post_items E req (s, [])
            = (\<lparr>status = 201, payload = Json (first_row (rows q))\<rparr>,
               (s2, [PgQuery InsertItem [get_prop (body req) ''name'',
                       or_null (get_prop (body req) ''description'')],
                     RedisDel ''items:all''])))"
  by (auto simp add: post_items_def query_call_def del_call_def Let_def
      split: if_splits prod.splits sum.splits)

lemma put_item_success:
  "status (fst (put_item E req (s, []))) = 200 \<longrightarrow>
     (\<exists>q s1 n1 s2 n2 s3.
        pg_query E UpdateItem [get_prop (body req) ''name'',
          or_null (get_prop (body req) ''description''), Str (id_param req)] s = (Inr q, s1)
        \<and> rows q \<noteq> []
        \<and> redis_del E ''items:all'' s1 = (Inr n1, s2)
        \<and> redis_del E (''items:'' @ id_param req) s2 = (Inr n2, s3)
        \<and> put_item E req (s, [])
            = (\<lparr>status = 200, payload = Json (first_row (rows q))\<rparr>,
               (s3, [PgQuery UpdateItem [get_prop (body req) ''name'',
                       or_null (get_prop (body req) ''description''), Str (id_param req)],
                     RedisDel ''items:all'', RedisDel (''items:'' @ id_param req)])))"
  by (auto simp add: put_item_def del_both_def query_call_def del_call_def Let_def
      split: if_splits prod.splits sum.splits)

lemma delete_item_success:
  "status (fst (delete_item E req (s, []))) = 204 \<longrightarrow>
     (\<exists>q s1 n1 s2 n2 s3.
        pg_query E DeleteItem [Str (id_param req)] s = (Inr q, s1)
        \<and> rowCount q \<noteq> 0
        \<and> redis_del E ''items:all'' s1 = (Inr n1, s2)
        \<and> redis_del E (''items:'' @ id_param req) s2 = (Inr n2, s3)
        \<and> delete_item E req (s, [])
            = (\<lparr>status = 204, payload = NoBody\<rparr>,
               (s3, [PgQuery DeleteItem [Str (id_param req)],
                     RedisDel ''items:all'', RedisDel (''items:'' @ id_param req)])))"
  by (auto simp add: delete_item_def del_both_def query_call_def del_call_def Let_def
      split: if_splits prod.splits sum.splits)

lemma post_items_shape:
  "snd (post_items E req (s, [])) = (s, [])
   \<or> (\<exists>e s1.
        pg_query E InsertItem [get_prop (body req) ''name'',
          or_null (get_prop (body req) ''description'')] s = (Inl e, s1)
        \<and> snd (post_items E req (s, []))
            = (s1, [PgQuery InsertItem [get_prop (body req) ''name'',
                      or_null (get_prop (body req) ''description'')]]))
   \<or> (\<exists>q s1 r s2.
        pg_query E InsertItem [get_prop (body req) ''name'',
          or_null (get_prop (body req) ''description'')] s = (Inr q, s1)
        \<and> redis_del E ''items:all'' s1 = (r, s2)
        \<and> snd (post_items E req (s, []))
            = (s2, [PgQuery InsertItem [get_prop (body req) ''name'',
                      or_null (get_prop (body req) ''description'')],
                    RedisDel ''items:all'']))"
  by (auto simp add: post_items_def query_call_def del_call_def Let_def
      split: if_splits prod.splits sum.splits)

lemma put_item_shape:
  "snd (put_item E req (s, [])) = (s, [])
   \<or> (\<exists>e s1.
        pg_query E UpdateItem [get_prop (body req) ''name'',
          or_null (get_prop (body req) ''description''), Str (id_param req)] s = (Inl e, s1)
        \<and> snd (put_item E req (s, []))
            = (s1, [PgQuery UpdateItem [get_prop (body req) ''name'',
                      or_null (get_prop (body req) ''description''), Str (id_param req)]]))
   \<or> (\<exists>q s1.
        pg_query E UpdateItem [get_prop (body req) ''name'',
          or_null (get_prop (body req) ''description''), Str (id_param req)] s = (Inr q, s1)
        \<and> rows q = []
        \<and> snd (put_item E req (s, []))
            = (s1, [PgQuery UpdateItem [get_prop (body req) ''name'',
                      or_null (get_prop (body req) ''description''), Str (id_param req)]]))
   \<or> (\<exists>q s1 r1 s2 r2 s3.
        pg_query E UpdateItem [get_prop (body req) ''name'',
          or_null (get_prop (body req) ''description''), Str (id_param req)] s = (Inr q, s1)
        \<and> rows q \<noteq> []
        \<and> redis_del E ''items:all'' s1 = (r1, s2)
        \<and> redis_del E (''items:'' @ id_param req) s2 = (r2, s3)
        \<and> snd (put_item E req (s, []))
            = (s3, [PgQuery UpdateItem [get_prop (body req) ''name'',
                      or_null (get_prop (body req) ''description''), Str (id_param req)],
                    RedisDel ''items:all'', RedisDel (''items:'' @ id_param req)]))"
  by (auto simp add: put_item_def del_both_def query_call_def del_call_def Let_def
      split: if_splits prod.splits sum.splits)

lemma delete_item_shape:
  "(\<exists>e s1.
        pg_query E DeleteItem [Str (id_param req)] s = (Inl e, s1)
        \<and> snd (delete_item E req (s, [])) = (s1, [PgQuery DeleteItem [Str (id_param req)]]))
   \<or> (\<exists>q s1.
        pg_query E DeleteItem [Str (id_param req)] s = (Inr q, s1)
        \<and> rowCount q = 0
        \<and> snd (delete_item E req (s, [])) = (s1, [PgQuery DeleteItem [Str (id_param req)]]))
   \<or> (\<exists>q s1 r1 s2 r2 s3.
        pg_query E DeleteItem [Str (id_param req)] s = (Inr q, s1)
        \<and> rowCount q \<noteq> 0
        \<and> redis_del E ''items:all'' s1 = (r1, s2)
        \<and> redis_del E (''items:'' @ id_param req) s2 = (r2, s3)
        \<and> snd (delete_item E req (s, []))
            = (s3, [PgQuery DeleteItem [Str (id_param req)],
                    RedisDel ''items:all'', RedisDel (''items:'' @ id_param req)]))"
  by (auto simp add: delete_item_def del_both_def query_call_def del_call_def Let_def
      split: if_splits prod.splits sum.splits)

text \<open>
  Claim C9. A write request that is answered with its success status (201, 200, 204)
  has issued exactly its store statement, which resolved, followed by its
  invalidations, which resolved too: \<^verbatim>\<open>DEL items:all\<close> for Create, \<^verbatim>\<open>DEL items:all\<close> and
  \<^verbatim>\<open>DEL items:<id>\<close> for Replace and Delete. Each \<^verbatim>\<open>DEL\<close> runs on the state the call before
  it left, the first one on the state the store statement left, and the handler ends in
  the state the last \<^verbatim>\<open>DEL\<close> left. And in every run of a write handler, successful or not,
  an invalidation is issued only after the store statement has resolved (with at least
  one row for Replace and Delete): the handler ends either where it started with no call
  issued, or in the state the store statement left with that statement alone issued, or
  in the state the last \<^verbatim>\<open>DEL\<close> left with the store statement and the invalidations
  issued.
\<close>

theorem invalidation_follows_mutation:
  "(status (fst (post_items E req (s, []))) = 201 \<longrightarrow>
     (\<exists>q s1 n s2.
        pg_query E InsertItem [get_prop (body req) ''name'',
          or_null (get_prop (body req) ''description'')] s = (Inr q, s1)
        \<and> redis_del E ''items:all'' s1 = (Inr n, s2)
        \<and> post_items E req (s, [])
            = (\<lparr>status = 201, payload = Json (first_row (rows q))\<rparr>,
               (s2, [PgQuery InsertItem [get_prop (body req) ''name'',
                       or_null (get_prop (body req) ''description'')],
                     RedisDel ''items:all'']))))
   \<and> (status (fst (put_item E req (s, []))) = 200 \<longrightarrow>
     (\<exists>q s1 n1 s2 n2 s3.
        pg_query E UpdateItem [get_prop (body req) ''name'',
          or_null (get_prop (body req) ''description''), Str (id_param req)] s = (Inr q, s1)
        \<and> rows q \<noteq> []
        \<and> redis_del E ''items:all'' s1 = (Inr n1, s2)
        \<and> redis_del E (''items:'' @ id_param req) s2 = (Inr n2, s3)
        \<and> put_item E req (s, [])
            = (\<lparr>status = 200, payload = Json (first_row (rows q))\<rparr>,
               (s3, [PgQuery UpdateItem [get_prop (body req) ''name'',
                       or_null (get_prop (body req) ''description''), Str (id_param req)],
                     RedisDel ''items:all'', RedisDel (''items:'' @ id_param req)]))))
   \<and> (status (fst (delete_item E req (s, []))) = 204 \<longrightarrow>
     (\<exists>q s1 n1 s2 n2 s3.
        pg_query E DeleteItem [Str (id_param req)] s = (Inr q, s1)
        \<and> rowCount q \<noteq> 0
        \<and> redis_del E ''items:all'' s1 = (Inr n1, s2)
        \<and> redis_del E (''items:'' @ id_param req) s2 = (Inr n2, s3)
        \<and> delete_item E req (s, [])
            = (\<lparr>status = 204, payload = NoBody\<rparr>,
               (s3, [PgQuery DeleteItem [Str (id_param req)],
                     RedisDel ''items:all'', RedisDel (''items:'' @ id_param req)]))))
   \<and> (snd (post_items E req (s, [])) = (s, [])
      \<or> (\<exists>e s1.
        pg_query E InsertItem [get_prop (body req) ''name'',
          or_null (get_prop (body req) ''description'')] s = (Inl e, s1)
        \<and> snd (post_items E req (s, []))
            = (s1, [PgQuery InsertItem [get_prop (body req) ''name'',
                      or_null (get_prop (body req) ''description'')]]))
      \<or> (\<exists>q s1 r s2.
        pg_query E InsertItem [get_prop (body req) ''name'',
          or_null (get_prop (body req) ''description'')] s = (Inr q, s1)
        \<and> redis_del E ''items:all'' s1 = (r, s2)
        \<and> snd (post_items E req (s, []))
            = (s2, [PgQuery InsertItem [get_prop (body req) ''name'',
                      or_null (get_prop (body req) ''description'')],
                    RedisDel ''items:all''])))
   \<and> (snd (put_item E req (s, [])) = (s, [])
      \<or> (\<exists>e s1.
        pg_query E UpdateItem [get_prop (body req) ''name'',
          or_null (get_prop (body req) ''description''), Str (id_param req)] s = (Inl e, s1)
        \<and> snd (put_item E req (s, []))
            = (s1, [PgQuery UpdateItem [get_prop (body req) ''name'',
                      or_null (get_prop (body req) ''description''), Str (id_param req)]]))
      \<or> (\<exists>q s1.
        pg_query E UpdateItem [get_prop (body req) ''name'',
          or_null (get_prop (body req) ''description''), Str (id_param req)] s = (Inr q, s1)
        \<and> rows q = []
        \<and> snd (put_item E req (s, []))
            = (s1, [PgQuery UpdateItem [get_prop (body req) ''name'',
                      or_null (get_prop (body req) ''description''), Str (id_param req)]]))
      \<or> (\<exists>q s1 r1 s2 r2 s3.
        pg_query E UpdateItem [get_prop (body req) ''name'',
          or_null (get_prop (body req) ''description''), Str (id_param req)] s = (Inr q, s1)
        \<and> rows q \<noteq> []
        \<and> redis_del E ''items:all'' s1 = (r1, s2)
        \<and> redis_del E (''items:'' @ id_param req) s2 = (r2, s3)
        \<and> snd (put_item E req (s, []))
            = (s3, [PgQuery UpdateItem [get_prop (body req) ''name'',
                      or_null (get_prop (body req) ''description''), Str (id_param req)],
                    RedisDel ''items:all'', RedisDel (''items:'' @ id_param req)])))
   \<and> ((\<exists>e s1.
        pg_query E DeleteItem [Str (id_param req)] s = (Inl e, s1)
        \<and> snd (delete_item E req (s, [])) = (s1, [PgQuery DeleteItem [Str (id_param req)]]))
      \<or> (\<exists>q s1.
        pg_query E DeleteItem [Str (id_param req)] s = (Inr q, s1)
        \<and> rowCount q = 0
        \<and> snd (delete_item E req (s, [])) = (s1, [PgQuery DeleteItem [Str (id_param req)]]))
      \<or> (\<exists>q s1 r1 s2 r2 s3.
        pg_query E DeleteItem [Str (id_param req)] s = (Inr q, s1)
        \<and> rowCount q \<noteq> 0
        \<and> redis_del E ''items:all'' s1 = (r1, s2)
        \<and> redis_del E (''items:'' @ id_param req) s2 = (r2, s3)
        \<and> snd (delete_item E req (s, []))
            = (s3, [PgQuery DeleteItem [Str (id_param req)],
                    RedisDel ''items:all'', RedisDel (''items:'' @ id_param req)])))"
  by (rule conjI [OF post_items_success [of E req s] conjI [OF put_item_success [of E req s]
        conjI [OF delete_item_success [of E req s] conjI [OF post_items_shape [of E req s]
        conjI [OF put_item_shape [of E req s] delete_item_shape [of E req s]]]]]])

theorem invalidation_follows_mutation_witness:
  "post_items (mem_env []) reqX (mem_warm, [])
     = (\<lparr>status = 201,
         payload = Json (Obj [(''id'', Num 2), (''name'', Str ''X''), (''description'', Null),
                              (''created_at'', Str ''2025-02-02T00:00:00Z'')])\<rparr>,
        (\<lparr>cache = [(''items:1'', ''null'', 60), (''items:2'', ''null'', 60)],
          table = [\<lparr>item_id = 2, item_name = Str ''X'', item_description = Null,
                    created_at = ''2025-02-02T00:00:00Z''\<rparr>, item1],
          next_id = 3, now = ''2025-02-02T00:00:00Z''\<rparr>,
         [PgQuery InsertItem [Str ''X'', Null], RedisDel ''items:all'']))
   \<and> put_item (mem_env []) reqX (mem_warm, [])
     = (\<lparr>status = 200,
         payload = Json (Obj [(''id'', Num 1), (''name'', Str ''X''), (''description'', Null),
                              (''created_at'', Str ''2025-01-01T00:00:00Z'')])\<rparr>,
        (\<lparr>cache = [(''items:2'', ''null'', 60)], table = [itemX], next_id = 2,
          now = ''2025-02-02T00:00:00Z''\<rparr>,
         [PgQuery UpdateItem [Str ''X'', Null, Str ''1''], RedisDel ''items:all'',
          RedisDel ''items:1'']))
   \<and> delete_item (mem_env []) reqX (mem_warm, [])
     = (\<lparr>status = 204, payload = NoBody\<rparr>,
        (\<lparr>cache = [(''items:2'', ''null'', 60)], table = [], next_id = 2,
          now = ''2025-02-02T00:00:00Z''\<rparr>,
         [PgQuery DeleteItem [Str ''1''], RedisDel ''items:all'', RedisDel ''items:1'']))"
proof -
  have a: "status (fst (post_items (mem_env []) reqX (mem_warm, []))) = 201"
    by (simp add: post_items_def query_call_def del_call_def Let_def mem_env_def mem_query_def
        mem_insert_def mem_del_def reqX_def get_prop_def or_null_def)
  have b: "status (fst (put_item (mem_env []) reqX (mem_warm, []))) = 200"
    by (simp add: put_item_def del_both_def query_call_def del_call_def Let_def mem_env_def
        mem_query_def mem_update_def mem_del_def has_id_def mem_warm_def item1_def reqX_def
        get_prop_def or_null_def dec_1)
  have c: "status (fst (delete_item (mem_env []) reqX (mem_warm, []))) = 204"
    by (simp add: delete_item_def del_both_def query_call_def del_call_def Let_def mem_env_def
        mem_query_def mem_delete_def mem_del_def has_id_def mem_warm_def item1_def reqX_def dec_1)
  from invalidation_follows_mutation [THEN conjunct1, rule_format, OF a]
  have p: "post_items (mem_env []) reqX (mem_warm, [])
     = (\<lparr>status = 201,
         payload = Json (Obj [(''id'', Num 2), (''name'', Str ''X''), (''description'', Null),
                              (''created_at'', Str ''2025-02-02T00:00:00Z'')])\<rparr>,
        (\<lparr>cache = [(''items:1'', ''null'', 60), (''items:2'', ''null'', 60)],
          table = [\<lparr>item_id = 2, item_name = Str ''X'', item_description = Null,
                    created_at = ''2025-02-02T00:00:00Z''\<rparr>, item1],
          next_id = 3, now = ''2025-02-02T00:00:00Z''\<rparr>,
         [PgQuery InsertItem [Str ''X'', Null], RedisDel ''items:all'']))"
    by (auto simp add: mem_env_def mem_query_def mem_insert_def mem_del_def mem_warm_def
        row_json_def reqX_def get_prop_def or_null_def)
  from invalidation_follows_mutation [THEN conjunct2, THEN conjunct1, rule_format, OF b]
  have u: "put_item (mem_env []) reqX (mem_warm, [])
     = (\<lparr>status = 200,
         payload = Json (Obj [(''id'', Num 1), (''name'', Str ''X''), (''description'', Null),
                              (''created_at'', Str ''2025-01-01T00:00:00Z'')])\<rparr>,
        (\<lparr>cache = [(''items:2'', ''null'', 60)], table = [itemX], next_id = 2,
          now = ''2025-02-02T00:00:00Z''\<rparr>,
         [PgQuery UpdateItem [Str ''X'', Null, Str ''1''], RedisDel ''items:all'',
          RedisDel ''items:1'']))"
    by (auto simp add: mem_env_def mem_query_def mem_update_def mem_del_def has_id_def
        mem_warm_def item1_def itemX_def row_json_def reqX_def get_prop_def or_null_def dec_1)
  from invalidation_follows_mutation [THEN conjunct2, THEN conjunct2, THEN conjunct1, rule_format, OF c]
  have d: "delete_item (mem_env []) reqX (mem_warm, [])
     = (\<lparr>status = 204, payload = NoBody\<rparr>,
        (\<lparr>cache = [(''items:2'', ''null'', 60)], table = [], next_id = 2,
          now = ''2025-02-02T00:00:00Z''\<rparr>,
         [PgQuery DeleteItem [Str ''1''], RedisDel ''items:all'', RedisDel ''items:1'']))"
    by (auto simp add: mem_env_def mem_query_def mem_delete_def mem_del_def has_id_def
        mem_warm_def item1_def reqX_def dec_1)
  from p u d show ?thesis by simp
qed

lemma falsy_cases:
  "(\<not> truthy d) = (d = Undefined \<or> d = Null \<or> d = Str [] \<or> d = Num 0 \<or> d = Bool False)"
  by (cases d) auto

lemma post_items_binds_null:
  assumes "truthy (get_prop (body req) ''name'')"
    and "\<not> truthy (get_prop (body req) ''description'')"
  shows "take 1 (snd (snd (post_items E req (s, []))))
           = [PgQuery InsertItem [get_prop (body req) ''name'', Null]]"
  using assms
  by (auto simp add: post_items_def query_call_def del_call_def Let_def or_null_def
      split: prod.splits sum.splits)

lemma put_item_binds_null:
  assumes "truthy (get_prop (body req) ''name'')"
    and "\<not> truthy (get_prop (body req) ''description'')"
  shows "take 1 (snd (snd (put_item E req (s, []))))
           = [PgQuery UpdateItem [get_prop (body req) ''name'', Null, Str (id_param req)]]"
  using assms
  by (auto simp add: put_item_def del_both_def query_call_def del_call_def Let_def or_null_def
      split: prod.splits sum.splits)

lemma post_items_mem_null:
  assumes "truthy (get_prop (body req) ''name'')"
    and "\<not> truthy (get_prop (body req) ''description'')"
  shows "fst (post_items (mem_env docs) req (m, []))
           = \<lparr>status = 201,
              payload = Json (row_json \<lparr>item_id = next_id m, item_name = get_prop (body req) ''name'',
                                        item_description = Null, created_at = now m\<rparr>)\<rparr>
         \<and> table (fst (snd (post_items (mem_env docs) req (m, []))))
           = \<lparr>item_id = next_id m, item_name = get_prop (body req) ''name'',
              item_description = Null, created_at = now m\<rparr> # table m"
  using assms
  by (simp add: post_items_def query_call_def del_call_def Let_def or_null_def mem_env_def
      mem_query_def mem_insert_def mem_del_def)

lemma filter_updated:
  "filter (has_id i) (map (\<lambda>it. if has_id i it
                               then it\<lparr>item_name := n, item_description := d\<rparr> else it) xs)
     = map (\<lambda>it. it\<lparr>item_name := n, item_description := d\<rparr>) (filter (has_id i) xs)"
  by (induction xs) (simp_all add: has_id_def)

lemma put_item_mem_null:
  assumes "truthy (get_prop (body req) ''name'')"
    and "\<not> truthy (get_prop (body req) ''description'')"
  shows "table (fst (snd (put_item (mem_env docs) req (m, []))))
           = map (\<lambda>it. if has_id (id_param req) it
                        then it\<lparr>item_name := get_prop (body req) ''name'', item_description := Null\<rparr>
                        else it) (table m)
         \<and> fst (put_item (mem_env docs) req (m, []))
           = (case filter (has_id (id_param req)) (table m) of
                [] \<Rightarrow> \<lparr>status = 404, payload = ErrorBody ItemMissing\<rparr>
              | it # others \<Rightarrow>
                  \<lparr>status = 200,
                   payload = Json (row_json (it\<lparr>item_name := get_prop (body req) ''name'',
                                               item_description := Null\<rparr>))\<rparr>)"
  using assms
  by (simp add: put_item_def del_both_def query_call_def del_call_def Let_def or_null_def
      mem_env_def mem_query_def mem_update_def mem_del_def filter_updated
      split: list.splits)


text \<open>
  Claim C10. \<^verbatim>\<open>description || null\<close> is \<^verbatim>\<open>null\<close> for an absent, \<^verbatim>\<open>null\<close>, empty-string, zero or
  \<^verbatim>\<open>false\<close> description. So a Create or Replace request with a name and a falsy description
  binds SQL \<^verbatim>\<open>NULL\<close> to the description column of its \<^verbatim>\<open>INSERT\<close> or \<^verbatim>\<open>UPDATE\<close>; on the
  in-memory store the row then stored has a \<^verbatim>\<open>null\<close> description and so has the row in
  the response.
\<close>

theorem falsy_description_is_stored_as_null:
  "or_null Undefined = Null \<and> or_null Null = Null \<and> or_null (Str []) = Null
   \<and> or_null (Num 0) = Null \<and> or_null (Bool False) = Null
   \<and> (truthy (get_prop (body req) ''name'') \<and> \<not> truthy (get_prop (body req) ''description'')
     \<longrightarrow> take 1 (snd (snd (post_items E req (s, []))))
           = [PgQuery InsertItem [get_prop (body req) ''name'', Null]])
   \<and> (truthy (get_prop (body req) ''name'') \<and> \<not> truthy (get_prop (body req) ''description'')
     \<longrightarrow> take 1 (snd (snd (put_item E req (s, []))))
           = [PgQuery UpdateItem [get_prop (body req) ''name'', Null, Str (id_param req)]])
   \<and> (truthy (get_prop (body req) ''name'') \<and> \<not> truthy (get_prop (body req) ''description'')
     \<longrightarrow> fst (post_items (mem_env docs) req (m, []))
           = \<lparr>status = 201,
              payload = Json (row_json \<lparr>item_id = next_id m,
                                        item_name = get_prop (body req) ''name'',
                                        item_description = Null, created_at = now m\<rparr>)\<rparr>
         \<and> table (fst (snd (post_items (mem_env docs) req (m, []))))
           = \<lparr>item_id = next_id m, item_name = get_prop (body req) ''name'',
              item_description = Null, created_at = now m\<rparr> # table m)
   \<and> (truthy (get_prop (body req) ''name'') \<and> \<not> truthy (get_prop (body req) ''description'')
     \<longrightarrow> table (fst (snd (put_item (mem_env docs) req (m, []))))
           = map (\<lambda>it. if has_id (id_param req) it
                        then it\<lparr>item_name := get_prop (body req) ''name'', item_description := Null\<rparr>
                        else it) (table m)
         \<and> fst (put_item (mem_env docs) req (m, []))
           = (case filter (has_id (id_param req)) (table m) of
                [] \<Rightarrow> \<lparr>status = 404, payload = ErrorBody ItemMissing\<rparr>
              | it # others \<Rightarrow>
                  \<lparr>status = 200,
                   payload = Json (row_json (it\<lparr>item_name := get_prop (body req) ''name'',
                                               item_description := Null\<rparr>))\<rparr>))"
proof -
  have cases: "or_null Undefined = Null \<and> or_null Null = Null \<and> or_null (Str []) = Null
      \<and> or_null (Num 0) = Null \<and> or_null (Bool False) = Null"
    by (simp add: or_null_def)
  show ?thesis
    using cases post_items_binds_null [of req E s] put_item_binds_null [of req E s]
      post_items_mem_null [of req docs m] put_item_mem_null [of req docs m]
    by (intro conjI impI; (elim conjE)?; simp)
qed

theorem falsy_description_is_stored_as_null_witness:
  "take 1 (snd (snd (post_items (mem_env []) reqX (mem1, []))))
     = [PgQuery InsertItem [Str ''X'', Null]]
   \<and> take 1 (snd (snd (put_item (mem_env []) reqX (mem1, []))))
     = [PgQuery UpdateItem [Str ''X'', Null, Str ''1'']]
   \<and> fst (post_items (mem_env []) reqX (mem1, []))
     = \<lparr>status = 201,
        payload = Json (Obj [(''id'', Num 2), (''name'', Str ''X''), (''description'', Null),
                             (''created_at'', Str ''2025-02-02T00:00:00Z'')])\<rparr>
   \<and> table (fst (snd (post_items (mem_env []) reqX (mem1, []))))
     = [\<lparr>item_id = 2, item_name = Str ''X'', item_description = Null,
         created_at = ''2025-02-02T00:00:00Z''\<rparr>,
        \<lparr>item_id = 1, item_name = Str ''A'', item_description = Str ''desc A'',
         created_at = ''2025-01-01T00:00:00Z''\<rparr>]
   \<and> table (fst (snd (put_item (mem_env []) reqX (mem1, [])))) = [itemX]
   \<and> fst (put_item (mem_env []) reqX (mem1, []))
     = \<lparr>status = 200,
        payload = Json (Obj [(''id'', Num 1), (''name'', Str ''X''), (''description'', Null),
                             (''created_at'', Str ''2025-01-01T00:00:00Z'')])\<rparr>"
proof -
  have h: "truthy (get_prop (body reqX) ''name'') \<and> \<not> truthy (get_prop (body reqX) ''description'')"
    by (simp add: reqX_def get_prop_def)
  note T = falsy_description_is_stored_as_null [where req = reqX and docs = "[]" and m = mem1
      and E = "mem_env []" and s = mem1]
  from T [THEN conjunct2, THEN conjunct2, THEN conjunct2, THEN conjunct2, THEN conjunct2,
        THEN conjunct1, rule_format, OF h]
      T [THEN conjunct2, THEN conjunct2, THEN conjunct2, THEN conjunct2, THEN conjunct2,
        THEN conjunct2, THEN conjunct1, rule_format, OF h]
      T [THEN conjunct2, THEN conjunct2, THEN conjunct2, THEN conjunct2, THEN conjunct2,
        THEN conjunct2, THEN conjunct2, THEN conjunct1, rule_format, OF h]
      T [THEN conjunct2, THEN conjunct2, THEN conjunct2, THEN conjunct2, THEN conjunct2,
        THEN conjunct2, THEN conjunct2, THEN conjunct2, rule_format, OF h]
  show ?thesis
    by (simp add: reqX_def get_prop_def mem1_def itemX_def row_json_def has_id_def dec_1)
qed

end
